theory Spec2Isabelle
  imports Complex_Main "HOL-Library.AList" "HOL-Library.Log_Nat" "HOL-Library.Multiset"
begin

section \<open>Numbers\<close>

text \<open>
  The optimizer computes with Python floats, which are IEEE doubles. A double is modelled
  by the rational number it stands for, and every arithmetic operation of the source by
  the exact operation followed by rounding to the nearest double, ties to the even
  significand (\<open>fl\<close>). The exponent range is not bounded: overflow to infinity and gradual
  underflow, which need magnitudes beyond \<open>1e308\<close> or below \<open>1e-308\<close>, and the values
  \<open>inf\<close> and \<open>nan\<close> are outside the model. The integers of the configuration tables are
  Python ints; they and the integer results the source forms from them are far below
  \<open>2^53\<close>, where integer and double arithmetic agree.

  \<open>round_half_even\<close> rounds a rational to the nearest integer, ties to the even one.
\<close>

definition round_half_even :: "rat \<Rightarrow> int" where
  "round_half_even x =
     (let f = \<lfloor>x\<rfloor>; d = x - of_int f
      in if d < 1 / 2 then f
         else if 1 / 2 < d then f + 1
         else if even f then f else f + 1)"

text \<open>
  For \<open>x > 0\<close>, \<open>ilog2 x\<close> is the exponent \<open>e\<close> with \<open>2^e \<le> x < 2^(e+1)\<close>. A double with
  that exponent is a multiple of \<open>2^(e-52)\<close>.
\<close>

definition ilog2 :: "rat \<Rightarrow> int" where
  "ilog2 x = (if 1 \<le> x then bitlen \<lfloor>x\<rfloor> - 1 else - bitlen (\<lceil>1 / x\<rceil> - 1))"

definition fl :: "rat \<Rightarrow> rat" where
  "fl x =
     (if x = 0 then 0
      else let q = 2 powi (ilog2 \<bar>x\<bar> - 52)
           in of_int (round_half_even (x / q)) * q)"

definition fadd :: "rat \<Rightarrow> rat \<Rightarrow> rat" where
  "fadd a b = fl (a + b)"

definition fsub :: "rat \<Rightarrow> rat \<Rightarrow> rat" where
  "fsub a b = fl (a - b)"

definition fmul :: "rat \<Rightarrow> rat \<Rightarrow> rat" where
  "fmul a b = fl (a * b)"

text \<open>
  Division by zero: between Python numbers \<open>a / b\<close> raises \<open>ZeroDivisionError\<close>; between
  NumPy scalars it gives \<open>inf\<close> or \<open>nan\<close> with a warning, which the model records as the
  error \<open>InvalidValue\<close>.
\<close>

datatype py_error = ZeroDivisionError | InvalidValue

definition fdiv :: "rat \<Rightarrow> rat \<Rightarrow> py_error + rat" where
  "fdiv a b = (if b = 0 then Inl ZeroDivisionError else Inr (fl (a / b)))"

definition scalar_div :: "rat \<Rightarrow> rat \<Rightarrow> py_error + rat" where
  "scalar_div a b = (if b = 0 then Inl InvalidValue else Inr (fl (a / b)))"

text \<open>
  The builtin \<open>round(x, n)\<close> on a float: the decimal with \<open>n\<close> places nearest to the exact
  value of \<open>x\<close>, ties to the even digit, and then the double nearest to that decimal.
\<close>

definition py_round :: "rat \<Rightarrow> nat \<Rightarrow> rat" where
  "py_round x n = fl (of_int (round_half_even (x * 10 ^ n)) / 10 ^ n)"

text \<open>\<open>d.get(k, default)\<close> on a dictionary.\<close>

definition dict_get :: "('k \<rightharpoonup> 'v) \<Rightarrow> 'k \<Rightarrow> 'v \<Rightarrow> 'v" where
  "dict_get d k dflt = (case d k of None \<Rightarrow> dflt | Some v \<Rightarrow> v)"

text \<open>
  \<open>a or b\<close> where \<open>a\<close> is \<open>None\<close> or a number: Python takes \<open>b\<close> when \<open>a\<close> is falsy,
  and both \<open>None\<close> and zero are falsy.
\<close>

definition py_or :: "rat option \<Rightarrow> rat \<Rightarrow> rat" where
  "py_or a b = (case a of None \<Rightarrow> b | Some v \<Rightarrow> if v = 0 then b else v)"

section \<open>pandas and NumPy\<close>

text \<open>
  What the optimizer takes from the two libraries beyond selecting and ordering rows:
  \<open>Series.sum()\<close> and \<open>Series.mean()\<close> of a column of doubles, whose results are NumPy
  scalars, and \<open>round(x, n)\<close> applied to a NumPy scalar, which NumPy carries out. The
  order in which a long column is added up and the way a scalar is rounded are the
  libraries' own, so the three are parameters of the model.
\<close>

record pandas =
  series_sum :: "rat list \<Rightarrow> rat"
  series_mean :: "rat list \<Rightarrow> rat"
  scalar_round :: "rat \<Rightarrow> nat \<Rightarrow> rat"

section \<open>ProductionOptimizer: configuration tables\<close>

definition default_capacities :: "string \<rightharpoonup> rat" where
  "default_capacities =
     map_of [(''Milk'', 2000), (''Butter'', 500), (''Cheese'', 400),
             (''Yogurt'', 800), (''Ghee'', 300)]"

definition production_costs :: "string \<rightharpoonup> rat" where
  "production_costs =
     map_of [(''Milk'', 15), (''Butter'', 300), (''Cheese'', 250),
             (''Yogurt'', 50), (''Ghee'', 400)]"

definition storage_costs :: "string \<rightharpoonup> rat" where
  "storage_costs =
     map_of [(''Milk'', 1 / 2), (''Butter'', 2), (''Cheese'', 3),
             (''Yogurt'', 1), (''Ghee'', 5 / 2)]"

definition shelf_life :: "string \<rightharpoonup> nat" where
  "shelf_life =
     map_of [(''Milk'', 5), (''Butter'', 30), (''Cheese'', 45),
             (''Yogurt'', 10), (''Ghee'', 90)]"

definition price_estimates :: "string \<rightharpoonup> rat" where
  "price_estimates =
     map_of [(''Milk'', 25), (''Butter'', 450), (''Cheese'', 350),
             (''Yogurt'', 80), (''Ghee'', 600)]"

definition estimate_price :: "string \<Rightarrow> rat" where
  "estimate_price product = dict_get price_estimates product 100"

section \<open>Forecast frames\<close>

text \<open>
  A forecast frame is a pandas DataFrame. Each row carries its index label (pandas keeps
  the label of a row through filtering and \<open>tail\<close>; \<open>concat(..., ignore_index=True)\<close> and
  a fresh frame number the rows \<open>0, 1, 2, ...\<close>), a date (a day number), a product and a
  demand quantity, a double. The source reads the date from column \<open>date\<close> or else \<open>ds\<close>
  and the demand from \<open>predicted_demand\<close> or else \<open>yhat\<close>; the two spellings carry the
  same data and are one field here. The column \<open>product\<close> may be absent, which
  \<open>has_product\<close> records; \<open>row_product\<close> is then not looked at. \<open>iterrows\<close> hands the
  demand of a row over as a Python float.
\<close>

record frow =
  row_label :: nat
  row_date :: int
  row_product :: string
  row_demand :: rat

record frame =
  has_product :: bool
  rows :: "frow list"

text \<open>
  \<open>forecasts[forecasts['product'] == product].copy() if 'product' in forecasts.columns
  else forecasts.copy()\<close>
\<close>

definition product_forecasts :: "frame \<Rightarrow> string \<Rightarrow> frow list" where
  "product_forecasts fc product =
     (if has_product fc then filter (\<lambda>r. row_product r = product) (rows fc) else rows fc)"

section \<open>calculate_optimal_production\<close>

record plan_row =
  date :: int
  forecasted_demand :: rat
  optimal_production :: rat
  capacity_utilization :: rat
  production_cost :: rat
  potential_revenue :: rat
  profit_margin :: rat

text \<open>
  The body of the loop over the rows, one output row per input row, in the order in
  which the source evaluates it. Both divisions are Python's and raise on a zero
  divisor; the exception would leave the method, so the row is an error then.
\<close>

definition production_row :: "string \<Rightarrow> rat \<Rightarrow> rat \<Rightarrow> frow \<Rightarrow> py_error + plan_row" where
  "production_row product safety_stock capacity row =
     (let forecast_demand = row_demand row;
          adjusted_demand = fmul forecast_demand (fadd 1 safety_stock);
          production_qty = min adjusted_demand capacity
      in case fdiv production_qty capacity of
           Inl e \<Rightarrow> Inl e
         | Inr ratio \<Rightarrow>
             let utilization = fmul ratio 100;
                 prod_cost = fmul production_qty (dict_get production_costs product 0);
                 avg_price = estimate_price product;
                 revenue = fmul production_qty avg_price
             in case (if 0 < revenue
                      then (case fdiv (fsub revenue prod_cost) revenue of
                              Inl e \<Rightarrow> Inl e
                            | Inr m \<Rightarrow> Inr (py_round (fmul m 100) 1))
                      else Inr 0) of
                  Inl e \<Rightarrow> Inl e
                | Inr margin \<Rightarrow>
                    Inr \<lparr> date = row_date row,
                          forecasted_demand = forecast_demand,
                          optimal_production = py_round production_qty 0,
                          capacity_utilization = py_round utilization 1,
                          production_cost = py_round prod_cost 2,
                          potential_revenue = py_round revenue 2,
                          profit_margin = margin \<rparr>)"

fun production_loop :: "string \<Rightarrow> rat \<Rightarrow> rat \<Rightarrow> frow list \<Rightarrow> py_error + plan_row list" where
  "production_loop product safety_stock capacity [] = Inr []"
| "production_loop product safety_stock capacity (row # rest) =
     (case production_row product safety_stock capacity row of
        Inl e \<Rightarrow> Inl e
      | Inr r \<Rightarrow>
          (case production_loop product safety_stock capacity rest of
             Inl e \<Rightarrow> Inl e
           | Inr plan \<Rightarrow> Inr (r # plan)))"

text \<open>\<open>custom_capacity or self.default_capacities.get(product, 1000)\<close>\<close>

definition capacity_for :: "rat option \<Rightarrow> string \<Rightarrow> rat" where
  "capacity_for custom_capacity product =
     py_or custom_capacity (dict_get default_capacities product 1000)"

text \<open>
  \<open>sort_values\<close> orders the rows by date. pandas does not promise an order among rows of
  equal date; the model takes the stable one, and no statement below depends on it.
  The result \<open>Inr None\<close> is the source's \<open>return None\<close>, \<open>Inl\<close> an exception that leaves
  the method.
\<close>

definition calculate_optimal_production ::
  "frame option \<Rightarrow> string \<Rightarrow> rat \<Rightarrow> rat option \<Rightarrow> py_error + plan_row list option" where
  "calculate_optimal_production forecasts product safety_stock custom_capacity =
     (case forecasts of
        None \<Rightarrow> Inr None
      | Some fc \<Rightarrow>
          if rows fc = [] then Inr None
          else
            let capacity = capacity_for custom_capacity product;
                pf = product_forecasts fc product
            in if pf = [] then Inr None
               else (case production_loop product safety_stock capacity
                            (sort_key row_date pf) of
                       Inl e \<Rightarrow> Inl e
                     | Inr plan \<Rightarrow> Inr (Some plan)))"

section \<open>calculate_inventory_optimization\<close>

record inventory_row =
  inv_date :: int
  current_inventory :: rat
  inv_forecasted_demand :: rat
  optimal_stock_level :: rat
  reorder_point :: rat
  recommended_order :: rat
  daily_storage_cost :: rat
  stock_status :: string

text \<open>\<open>frame.iloc[a:b]\<close>: the rows at positions \<open>a, ..., b - 1\<close>, for \<open>a, b \<ge> 0\<close>.\<close>

definition iloc :: "'a list \<Rightarrow> nat \<Rightarrow> nat \<Rightarrow> 'a list" where
  "iloc xs a b = take (b - a) (drop a xs)"

definition calculate_future_demand :: "pandas \<Rightarrow> frow list \<Rightarrow> nat \<Rightarrow> nat \<Rightarrow> rat" where
  "calculate_future_demand lib forecasts current_index days =
     (let end_index = min (current_index + days) (length forecasts);
          future_data = iloc forecasts current_index end_index
      in series_sum lib (map row_demand future_data))"

definition get_stock_status :: "rat \<Rightarrow> rat \<Rightarrow> rat \<Rightarrow> string" where
  "get_stock_status current_stock reorder_pt optimal_stock =
     (if current_stock < reorder_pt then ''Reorder Required''
      else if optimal_stock < current_stock then ''Overstock''
      else ''Optimal'')"

text \<open>
  A value of the inventory loop with whether it is a NumPy scalar: the look-ahead sum is
  one, a value computed from one is one, and \<open>min\<close> and \<open>max\<close> return one of their
  arguments as it is. \<open>round\<close> is the builtin's on a Python number and NumPy's on a
  NumPy scalar.
\<close>

type_synonym pynum = "rat \<times> bool"

definition round_num :: "pandas \<Rightarrow> pynum \<Rightarrow> nat \<Rightarrow> rat" where
  "round_num lib v n = (if snd v then scalar_round lib (fst v) n else py_round (fst v) n)"

text \<open>
  The loop \<open>for i, row in product_forecasts.iterrows()\<close>: \<open>iterrows\<close> yields the index
  label of each row with the row, and the label is what the source hands to
  \<open>_calculate_future_demand\<close> as \<open>current_index\<close>. The running stock is the fifth
  argument. \<open>min(a, b)\<close> is \<open>b\<close> when \<open>b < a\<close> and \<open>a\<close> otherwise; \<open>max(0, x)\<close> is \<open>x\<close>
  when \<open>0 < x\<close> and the integer 0 otherwise.
\<close>

fun inventory_loop ::
  "pandas \<Rightarrow> frow list \<Rightarrow> nat \<Rightarrow> rat \<Rightarrow> pynum \<Rightarrow> frow list \<Rightarrow> inventory_row list" where
  "inventory_loop lib pf shelf_life_days storage_cost_per_day current_stock [] = []"
| "inventory_loop lib pf shelf_life_days storage_cost_per_day current_stock (row # rest) =
     (let i = row_label row;
          demand = row_demand row;
          future_demand = (calculate_future_demand lib pf i shelf_life_days, True);
          shelf_demand = (fmul demand (of_nat shelf_life_days), False);
          optimal_stock =
            (if fst shelf_demand < fst future_demand then shelf_demand else future_demand);
          reorder_pt = fmul demand 2;
          order_qty =
            (if fst current_stock < reorder_pt
             then (fsub (fst optimal_stock) (fst current_stock),
                   snd optimal_stock \<or> snd current_stock)
             else (0, False));
          after_sale =
            (fsub (fadd (fst current_stock) (fst order_qty)) demand,
             snd current_stock \<or> snd order_qty);
          new_stock = (if 0 < fst after_sale then after_sale else (0, False));
          storage_cost = (fmul (fst new_stock) storage_cost_per_day, snd new_stock)
      in \<lparr> inv_date = row_date row,
           current_inventory = round_num lib new_stock 0,
           inv_forecasted_demand = py_round demand 0,
           optimal_stock_level = round_num lib optimal_stock 0,
           reorder_point = py_round reorder_pt 0,
           recommended_order = round_num lib order_qty 0,
           daily_storage_cost = round_num lib storage_cost 2,
           stock_status =
             get_stock_status (fst new_stock) reorder_pt (fst optimal_stock) \<rparr>
         # inventory_loop lib pf shelf_life_days storage_cost_per_day new_stock rest)"

definition calculate_inventory_optimization ::
  "pandas \<Rightarrow> frame option \<Rightarrow> string \<Rightarrow> rat \<Rightarrow> inventory_row list option" where
  "calculate_inventory_optimization lib forecasts product current_inventory_arg =
     (case forecasts of
        None \<Rightarrow> None
      | Some fc \<Rightarrow>
          if rows fc = [] then None
          else
            let pf = product_forecasts fc product
            in if pf = [] then None
               else Some (inventory_loop lib pf (dict_get shelf_life product 30)
                            (dict_get storage_costs product 1)
                            (current_inventory_arg, False) pf))"

section \<open>generate_optimization_summary\<close>

text \<open>
  The numeric part of the summary. The recommendation strings (which need a standard
  deviation) and the date stamp are left out; no statement below is about them. The
  sums and means of the plan's columns are pandas', and the totals are NumPy scalars.
\<close>

record product_summary =
  total_forecasted_demand :: rat
  total_optimal_production :: rat
  avg_capacity_utilization :: rat
  total_production_cost :: rat
  total_potential_revenue :: rat
  avg_profit_margin :: rat
  capacity_constraint :: "rat option"

record overall =
  overall_production_cost :: rat
  overall_potential_revenue :: rat
  overall_profit_margin :: rat

record summary =
  total_products :: nat
  time_horizon_days :: int
  products_analysis :: "(string \<times> product_summary) list"
  overall_metrics :: overall

definition summarize_product :: "pandas \<Rightarrow> string \<Rightarrow> plan_row list \<Rightarrow> product_summary" where
  "summarize_product lib product plan =
     \<lparr> total_forecasted_demand = series_sum lib (map forecasted_demand plan),
       total_optimal_production = series_sum lib (map optimal_production plan),
       avg_capacity_utilization = series_mean lib (map capacity_utilization plan),
       total_production_cost = series_sum lib (map production_cost plan),
       total_potential_revenue = series_sum lib (map potential_revenue plan),
       avg_profit_margin = series_mean lib (map profit_margin plan),
       capacity_constraint = default_capacities product \<rparr>"

text \<open>
  The loop over the products, with the analysis dictionary and the two running totals.
  The call inside uses the defaults \<open>safety_stock=0.1\<close>, the double nearest to \<open>0.1\<close>, and
  \<open>custom_capacity=None\<close>; an exception of the call would leave the method.
\<close>

fun summary_loop ::
  "pandas \<Rightarrow> frame option \<Rightarrow> string list
     \<Rightarrow> (string \<times> product_summary) list \<times> rat \<times> rat
     \<Rightarrow> py_error + (string \<times> product_summary) list \<times> rat \<times> rat" where
  "summary_loop lib forecasts [] acc = Inr acc"
| "summary_loop lib forecasts (product # others) (analysis, total_cost, total_revenue) =
     (case calculate_optimal_production forecasts product (fl (1 / 10)) None of
        Inl e \<Rightarrow> Inl e
      | Inr None \<Rightarrow> summary_loop lib forecasts others (analysis, total_cost, total_revenue)
      | Inr (Some plan) \<Rightarrow>
          if 0 < length plan then
            let ps = summarize_product lib product plan
            in summary_loop lib forecasts others
                 (AList.update product ps analysis,
                  fadd total_cost (total_production_cost ps),
                  fadd total_revenue (total_potential_revenue ps))
          else summary_loop lib forecasts others (analysis, total_cost, total_revenue))"

text \<open>
  The overall metrics. The division is between NumPy scalars and is guarded by
  \<open>total_potential_revenue > 0\<close>.
\<close>

definition generate_optimization_summary ::
  "pandas \<Rightarrow> frame option \<Rightarrow> string list \<Rightarrow> int \<Rightarrow> py_error + summary" where
  "generate_optimization_summary lib forecasts products time_horizon =
     (case summary_loop lib forecasts products ([], 0, 0) of
        Inl e \<Rightarrow> Inl e
      | Inr (analysis, total_cost, total_revenue) \<Rightarrow>
          (case (if 0 < total_revenue
                 then (case scalar_div (fsub total_revenue total_cost) total_revenue of
                         Inl e \<Rightarrow> Inl e
                       | Inr m \<Rightarrow> Inr (scalar_round lib (fmul m 100) 1))
                 else Inr 0) of
             Inl e \<Rightarrow> Inl e
           | Inr margin \<Rightarrow>
               Inr \<lparr> total_products = length products,
                     time_horizon_days = time_horizon,
                     products_analysis = analysis,
                     overall_metrics =
                       \<lparr> overall_production_cost = scalar_round lib total_cost 2,
                         overall_potential_revenue = scalar_round lib total_revenue 2,
                         overall_profit_margin = margin \<rparr> \<rparr>))"

section \<open>Strings and paths\<close>

text \<open>
  \<open>s.replace(old, new)\<close>: every occurrence of \<open>old\<close>, found left to right without
  overlap, becomes \<open>new\<close>. With an empty \<open>old\<close> Python puts \<open>new\<close> before every
  character and at the end.
\<close>

function py_replace :: "string \<Rightarrow> string \<Rightarrow> string \<Rightarrow> string" where
  "py_replace old new s =
     (if old = [] then new @ concat (map (\<lambda>c. c # new) s)
      else if s = [] then []
      else if take (length old) s = old
           then new @ py_replace old new (drop (length old) s)
           else hd s # py_replace old new (tl s))"
  by pat_completeness auto
termination
  by (relation "measure (\<lambda>(old, new, s). length s)") auto

definition endswith :: "string \<Rightarrow> string \<Rightarrow> bool" where
  "endswith s suffix =
     (length suffix \<le> length s \<and> drop (length s - length suffix) s = suffix)"

text \<open>
  The three files of a product, named relative to the models directory
  (\<open>os.path.join(self.models_dir, ...)\<close> puts the same directory in front of each).
\<close>

definition model_path :: "string \<Rightarrow> string" where
  "model_path product = py_replace '' '' ''_'' product @ ''_model.pkl''"

definition performance_path :: "string \<Rightarrow> string" where
  "performance_path product = py_replace '' '' ''_'' product @ ''_performance.pkl''"

definition metadata_path :: "string \<Rightarrow> string" where
  "metadata_path product = py_replace '' '' ''_'' product @ ''_metadata.pkl''"

text \<open>
  \<open>f.replace('_model.pkl', '').replace('_', ' ')\<close>: the product name read back from a
  file name, in \<open>load_all_models\<close> and \<open>get_available_models\<close>.
\<close>

definition product_of_file :: "string \<Rightarrow> string" where
  "product_of_file f = py_replace ''_'' '' '' (py_replace ''_model.pkl'' [] f)"

section \<open>DairyForecaster: state\<close>

text \<open>
  A training series is the frame handed to Prophet: rows of a date \<open>ds\<close> (a day number)
  and a value \<open>y\<close>.
\<close>

type_synonym series = "(int \<times> real) list"

record performance =
  mae :: "real option"
  rmse :: "real option"
  mape :: "real option"
  perf_note :: string

text \<open>
  The metadata dictionary written by \<open>save_model\<close>. The date range is kept as the two day
  numbers that the source formats with \<open>strftime\<close>.
\<close>

record model_metadata =
  md_product :: string
  trained_date :: string
  data_points :: nat
  date_range_start :: int
  date_range_end :: int

text \<open>
  What a dictionary of the forecaster or a pickle file can hold. The fitted Prophet model
  is opaque: it is the type parameter \<open>'m\<close>. \<open>EmptyDict\<close> is the \<open>{}\<close> that
  \<open>self.model_performance.get(product, {})\<close> falls back to.
\<close>

datatype 'm pyobj =
    Model 'm
  | Performance performance
  | Metadata model_metadata
  | EmptyDict

text \<open>
  A file either unpickles to an object or makes \<open>pickle.load\<close> raise (\<open>Garbage\<close>: a
  truncated or unreadable file).
\<close>

datatype 'm pickle_file = Pickled "'m pyobj" | Garbage

text \<open>
  The forecaster holds its three dictionaries and, as \<open>models_dir\<close>, the content of the
  models directory: file names with their content. The directory itself exists (the
  constructor creates it). A name with a path separator in it lies below the directory
  and is not among its entries.
\<close>

record 'm forecaster =
  models :: "string \<rightharpoonup> 'm pyobj"
  model_performance :: "string \<rightharpoonup> 'm pyobj"
  metadata :: "string \<rightharpoonup> 'm pyobj"
  models_dir :: "(string \<times> 'm pickle_file) list"

definition path_exists :: "(string \<times> 'm pickle_file) list \<Rightarrow> string \<Rightarrow> bool" where
  "path_exists d p = (map_of d p \<noteq> None)"

definition listdir :: "(string \<times> 'm pickle_file) list \<Rightarrow> string list" where
  "listdir d = filter (\<lambda>f. CHR ''/'' \<notin> set f) (map fst d)"

text \<open>
  The Prophet library, as the source uses it: the constructor with its seasonality mode
  and interval width (\<open>None\<close>: the library's default) followed by \<open>add_seasonality\<close> and
  \<open>fit\<close>, which may raise (\<open>Inl\<close> the message); the attribute \<open>seasonality_mode\<close> of a
  model; and \<open>make_future_dataframe(periods=k)\<close> followed by \<open>predict\<close>, giving the
  \<open>yhat\<close> column over the history and \<open>k\<close> further days, which may raise too.
\<close>

record 'm prophet =
  fit :: "string \<Rightarrow> real option \<Rightarrow> series \<Rightarrow> string + 'm"
  seasonality_mode :: "'m \<Rightarrow> string"
  predict :: "'m \<Rightarrow> nat \<Rightarrow> string + real list"

section \<open>DairyForecaster: _evaluate_model\<close>

text \<open>The three sklearn metrics; \<open>eps\<close> is the float epsilon sklearn divides by at least.\<close>

definition mean_absolute_error :: "real list \<Rightarrow> real list \<Rightarrow> real" where
  "mean_absolute_error y_true y_pred =
     sum_list (map2 (\<lambda>t p. \<bar>t - p\<bar>) y_true y_pred) / real (length y_true)"

definition mean_squared_error :: "real list \<Rightarrow> real list \<Rightarrow> real" where
  "mean_squared_error y_true y_pred =
     sum_list (map2 (\<lambda>t p. (t - p)\<^sup>2) y_true y_pred) / real (length y_true)"

definition mean_absolute_percentage_error :: "real list \<Rightarrow> real list \<Rightarrow> real" where
  "mean_absolute_percentage_error y_true y_pred =
     sum_list (map2 (\<lambda>t p. \<bar>t - p\<bar> / max \<bar>t\<bar> (1 / 2 ^ 52)) y_true y_pred)
       / real (length y_true)"

text \<open>\<open>frame.tail(n)\<close>: the last \<open>n\<close> rows, all of them when there are fewer.\<close>

definition tail :: "'a list \<Rightarrow> nat \<Rightarrow> 'a list" where
  "tail xs n = drop (length xs - n) xs"

definition unavailable :: "string \<Rightarrow> 'm pyobj" where
  "unavailable msg = Performance \<lparr> mae = None, rmse = None, mape = None, perf_note = msg \<rparr>"

definition set_performance :: "'m forecaster \<Rightarrow> string \<Rightarrow> 'm pyobj \<Rightarrow> 'm forecaster" where
  "set_performance s product p =
     s\<lparr> model_performance := (model_performance s)(product \<mapsto> p) \<rparr>"

text \<open>
  The metrics of the held-out rows. sklearn raises when the two columns differ in length;
  the message is not modelled beyond a fixed text.
\<close>

definition validation_metrics :: "real list \<Rightarrow> real list \<Rightarrow> string + performance" where
  "validation_metrics test_y yhat =
     (if length yhat \<noteq> length test_y
      then Inl ''Found input variables with inconsistent numbers of samples''
      else
        let y_pred = map (\<lambda>v. max v (1 / 10)) yhat;
            y_true = map (\<lambda>v. max v (1 / 10)) test_y
        in Inr \<lparr> mae = Some (mean_absolute_error y_true y_pred),
                 rmse = Some (sqrt (mean_squared_error y_true y_pred)),
                 mape = Some (mean_absolute_percentage_error y_true y_pred * 100),
                 perf_note = ''Validation on last 30 days'' \<rparr>)"

text \<open>
  \<open>_evaluate_model\<close>. Every exception inside is caught by the method's own
  \<open>except\<close>, which records the unavailable metrics with the message.
\<close>

definition evaluate_model ::
  "'m prophet \<Rightarrow> 'm forecaster \<Rightarrow> 'm \<Rightarrow> series \<Rightarrow> string \<Rightarrow> 'm forecaster" where
  "evaluate_model lib s model data product =
     (let train_size = int (length data) - 30
      in if train_size < 60
         then set_performance s product (unavailable ''Insufficient data for validation'')
         else
           let train_data = take (nat train_size) data;
               test_data = drop (nat train_size) data
           in case fit lib (seasonality_mode lib model) None train_data of
                Inl e \<Rightarrow> set_performance s product (unavailable (''Error in validation: '' @ e))
              | Inr temp_model \<Rightarrow>
                  (case predict lib temp_model (length test_data) of
                     Inl e \<Rightarrow>
                       set_performance s product (unavailable (''Error in validation: '' @ e))
                   | Inr forecast \<Rightarrow>
                       (case validation_metrics (map snd test_data)
                               (tail forecast (length test_data)) of
                          Inl e \<Rightarrow>
                            set_performance s product
                              (unavailable (''Error in validation: '' @ e))
                        | Inr p \<Rightarrow> set_performance s product (Performance p))))"

section \<open>DairyForecaster: save, load, delete\<close>

text \<open>
  Writing a file, \<open>with open(path, 'wb') as f: pickle.dump(obj, f)\<close>, has one of three
  outcomes, which the environment decides: the file holds the object; \<open>open\<close> raises and
  the directory is as before; or \<open>open\<close> has created or truncated the file and
  \<open>pickle.dump\<close> raises, leaving a file that does not unpickle. The boolean is whether
  the statement completed.
\<close>

datatype write_outcome = Written | OpenFailed | DumpFailed

definition write_file ::
  "write_outcome \<Rightarrow> string \<Rightarrow> 'm pyobj \<Rightarrow> (string \<times> 'm pickle_file) list
     \<Rightarrow> bool \<times> (string \<times> 'm pickle_file) list" where
  "write_file outcome path obj d =
     (case outcome of
        Written \<Rightarrow> (True, AList.update path (Pickled obj) d)
      | OpenFailed \<Rightarrow> (False, d)
      | DumpFailed \<Rightarrow> (False, AList.update path Garbage d))"

text \<open>The smallest and the largest date of a series that has a row.\<close>

definition min_date :: "series \<Rightarrow> int" where
  "min_date data = fold min (map fst (tl data)) (fst (hd data))"

definition max_date :: "series \<Rightarrow> int" where
  "max_date data = fold max (map fst (tl data)) (fst (hd data))"

text \<open>
  \<open>save_model\<close>. The argument \<open>io\<close> gives the outcome of writing each path during this
  call, \<open>now\<close> the formatted clock. The three writes happen in the source's order and the
  first statement that raises ends the method in its \<open>except\<close>, which returns \<open>False\<close>;
  the in-memory metadata is set after the third write only. On a series without rows
  the minimum date is pandas' \<open>NaT\<close>, whose \<open>strftime\<close> raises, after the first two files
  have been written.
\<close>

definition save_model ::
  "(string \<Rightarrow> write_outcome) \<Rightarrow> string \<Rightarrow> 'm forecaster \<Rightarrow> string \<Rightarrow> 'm \<Rightarrow> series
     \<Rightarrow> bool \<times> 'm forecaster" where
  "save_model io now s product model training_data =
     (case write_file (io (model_path product)) (model_path product) (Model model)
             (models_dir s) of
        (False, d1) \<Rightarrow> (False, s\<lparr> models_dir := d1 \<rparr>)
      | (True, d1) \<Rightarrow>
          let perf = dict_get (model_performance s) product EmptyDict
          in case write_file (io (performance_path product)) (performance_path product)
                    perf d1 of
               (False, d2) \<Rightarrow> (False, s\<lparr> models_dir := d2 \<rparr>)
             | (True, d2) \<Rightarrow>
                 if training_data = [] then (False, s\<lparr> models_dir := d2 \<rparr>)
                 else
                   let md = Metadata \<lparr> md_product = product,
                                       trained_date = now,
                                       data_points = length training_data,
                                       date_range_start = min_date training_data,
                                       date_range_end = max_date training_data \<rparr>
                   in case write_file (io (metadata_path product)) (metadata_path product)
                             md d2 of
                        (False, d3) \<Rightarrow> (False, s\<lparr> models_dir := d3 \<rparr>)
                      | (True, d3) \<Rightarrow>
                          (True, s\<lparr> models_dir := d3,
                                    metadata := (metadata s)(product \<mapsto> md) \<rparr>))"

text \<open>
  \<open>load_model\<close>: \<open>False\<close> unless all three paths exist; then the three files are
  unpickled, an exception giving \<open>False\<close>; only after the third has been read are the
  three dictionaries assigned.
\<close>

definition load_model :: "'m forecaster \<Rightarrow> string \<Rightarrow> bool \<times> 'm forecaster" where
  "load_model s product =
     (let d = models_dir s
      in if \<not> (path_exists d (model_path product)
                \<and> path_exists d (performance_path product)
                \<and> path_exists d (metadata_path product))
         then (False, s)
         else
           case map_of d (model_path product) of
             Some (Pickled model) \<Rightarrow>
               (case map_of d (performance_path product) of
                  Some (Pickled perf) \<Rightarrow>
                    (case map_of d (metadata_path product) of
                       Some (Pickled md) \<Rightarrow>
                         (True, s\<lparr> models := (models s)(product \<mapsto> model),
                                   model_performance :=
                                     (model_performance s)(product \<mapsto> perf),
                                   metadata := (metadata s)(product \<mapsto> md) \<rparr>)
                     | _ \<Rightarrow> (False, s))
                | _ \<Rightarrow> (False, s))
           | _ \<Rightarrow> (False, s))"

fun load_files :: "'m forecaster \<Rightarrow> string list \<Rightarrow> 'm forecaster" where
  "load_files s [] = s"
| "load_files s (model_file # others) =
     load_files (snd (load_model s (product_of_file model_file))) others"

definition load_all_models :: "'m forecaster \<Rightarrow> 'm forecaster" where
  "load_all_models s =
     load_files s (filter (\<lambda>f. endswith f ''_model.pkl'') (listdir (models_dir s)))"

text \<open>The constructor: empty dictionaries over the directory as found, then \<open>load_all_models\<close>.\<close>

definition new_forecaster :: "(string \<times> 'm pickle_file) list \<Rightarrow> 'm forecaster" where
  "new_forecaster d =
     load_all_models \<lparr> models = Map.empty, model_performance = Map.empty,
                       metadata = Map.empty, models_dir = d \<rparr>"

text \<open>
  \<open>delete_model\<close>. \<open>rm\<close> tells for each path whether \<open>os.remove\<close> succeeds; when it
  raises, the method returns \<open>False\<close> with the dictionaries untouched.
\<close>

fun remove_files ::
  "(string \<Rightarrow> bool) \<Rightarrow> string list \<Rightarrow> (string \<times> 'm pickle_file) list
     \<Rightarrow> bool \<times> (string \<times> 'm pickle_file) list" where
  "remove_files rm [] d = (True, d)"
| "remove_files rm (path # paths) d =
     (if path_exists d path
      then if rm path then remove_files rm paths (AList.delete path d) else (False, d)
      else remove_files rm paths d)"

definition delete_model ::
  "(string \<Rightarrow> bool) \<Rightarrow> 'm forecaster \<Rightarrow> string \<Rightarrow> bool \<times> 'm forecaster" where
  "delete_model rm s product =
     (case remove_files rm
             [model_path product, performance_path product, metadata_path product]
             (models_dir s) of
        (False, d) \<Rightarrow> (False, s\<lparr> models_dir := d \<rparr>)
      | (True, d) \<Rightarrow>
          (True, s\<lparr> models_dir := d,
                    models := (models s)(product := None),
                    model_performance := (model_performance s)(product := None),
                    metadata := (metadata s)(product := None) \<rparr>))"

definition get_available_models :: "'m forecaster \<Rightarrow> string list" where
  "get_available_models s =
     map product_of_file
       (filter (\<lambda>f. endswith f ''_model.pkl'') (listdir (models_dir s)))"

definition model_exists :: "'m forecaster \<Rightarrow> string \<Rightarrow> bool" where
  "model_exists s product = path_exists (models_dir s) (model_path product)"

section \<open>DairyForecaster: train_model\<close>

text \<open>
  \<open>train_model\<close>: fit; store the model; evaluate; save. An exception of \<open>fit\<close> is caught
  by the method and nothing has changed by then. The result of \<open>save_model\<close> is not looked
  at.
\<close>

definition train_model ::
  "'m prophet \<Rightarrow> (string \<Rightarrow> write_outcome) \<Rightarrow> string \<Rightarrow> 'm forecaster \<Rightarrow> series
     \<Rightarrow> string \<Rightarrow> string \<Rightarrow> (bool \<times> string) \<times> 'm forecaster" where
  "train_model lib io now s data product mode =
     (case fit lib mode (Some (95 / 100)) data of
        Inl e \<Rightarrow> ((False, ''Error training model for '' @ product @ '': '' @ e), s)
      | Inr model \<Rightarrow>
          let s1 = s\<lparr> models := (models s)(product \<mapsto> Model model) \<rparr>;
              s2 = evaluate_model lib s1 model data product;
              s3 = snd (save_model io now s2 product model data)
          in ((True, ''Model trained successfully for '' @ product), s3))"

section \<open>Sequences of cache operations\<close>

text \<open>
  One call of a method of the forecaster, with what the environment does during it.
\<close>

datatype 'm cache_op =
    Train series string string "string \<Rightarrow> write_outcome" string
  | Save string 'm series "string \<Rightarrow> write_outcome" string
  | Load string
  | LoadAll
  | Delete string "string \<Rightarrow> bool"

fun step :: "'m prophet \<Rightarrow> 'm forecaster \<Rightarrow> 'm cache_op \<Rightarrow> 'm forecaster" where
  "step lib s (Train data product mode io now) =
     snd (train_model lib io now s data product mode)"
| "step lib s (Save product model data io now) = snd (save_model io now s product model data)"
| "step lib s (Load product) = snd (load_model s product)"
| "step lib s LoadAll = load_all_models s"
| "step lib s (Delete product rm) = snd (delete_model rm s product)"

fun run :: "'m prophet \<Rightarrow> 'm forecaster \<Rightarrow> 'm cache_op list \<Rightarrow> 'm forecaster" where
  "run lib s [] = s"
| "run lib s (c # cs) = run lib (step lib s c) cs"

text \<open>
  Whether every save that an operation attempts completes: the three writes succeed and
  the series has a row. A training whose fit raises attempts no save; loading and
  deleting save nothing.
\<close>

definition writes_complete :: "(string \<Rightarrow> write_outcome) \<Rightarrow> string \<Rightarrow> series \<Rightarrow> bool" where
  "writes_complete io product data =
     (data \<noteq> [] \<and> io (model_path product) = Written
      \<and> io (performance_path product) = Written \<and> io (metadata_path product) = Written)"

fun save_completes :: "'m prophet \<Rightarrow> 'm cache_op \<Rightarrow> bool" where
  "save_completes lib (Train data product mode io now) =
     (case fit lib mode (Some (95 / 100)) data of
        Inl e \<Rightarrow> True
      | Inr model \<Rightarrow> writes_complete io product data)"
| "save_completes lib (Save product model data io now) = writes_complete io product data"
| "save_completes lib (Load product) = True"
| "save_completes lib LoadAll = True"
| "save_completes lib (Delete product rm) = True"

section \<open>Quantities the statements refer to\<close>

text \<open>
  The row that the loop body builds when neither division raises, with the two quotients
  written as rounded exact quotients.
\<close>

definition plan_row_for :: "string \<Rightarrow> rat \<Rightarrow> rat \<Rightarrow> frow \<Rightarrow> plan_row" where
  "plan_row_for product safety_stock capacity row =
     (let production_qty = min (fmul (row_demand row) (fadd 1 safety_stock)) capacity;
          prod_cost = fmul production_qty (dict_get production_costs product 0);
          revenue = fmul production_qty (estimate_price product)
      in \<lparr> date = row_date row,
           forecasted_demand = row_demand row,
           optimal_production = py_round production_qty 0,
           capacity_utilization = py_round (fmul (fl (production_qty / capacity)) 100) 1,
           production_cost = py_round prod_cost 2,
           potential_revenue = py_round revenue 2,
           profit_margin =
             (if 0 < revenue
              then py_round (fmul (fl (fsub revenue prod_cost / revenue)) 100) 1
              else 0) \<rparr>)"

text \<open>
  The running total of a column over the plans of the listed products, a product without
  a plan adding nothing: what \<open>generate_optimization_summary\<close> accumulates as its totals.
\<close>

definition total_over ::
  "pandas \<Rightarrow> (plan_row \<Rightarrow> rat) \<Rightarrow> frame option \<Rightarrow> string list \<Rightarrow> rat" where
  "total_over lib col forecasts products =
     foldl (\<lambda>total product.
              case calculate_optimal_production forecasts product (fl (1 / 10)) None of
                Inr (Some plan) \<Rightarrow>
                  if plan = [] then total else fadd total (series_sum lib (map col plan))
              | _ \<Rightarrow> total)
       0 products"

text \<open>
  The two parts of the cache invariant: every key with a model in memory has metrics in
  memory, and every key with a model in memory has metadata in memory.
\<close>

definition has_metrics :: "'m forecaster \<Rightarrow> bool" where
  "has_metrics s = (\<forall>k. models s k \<noteq> None \<longrightarrow> model_performance s k \<noteq> None)"

definition has_metadata :: "'m forecaster \<Rightarrow> bool" where
  "has_metadata s = (\<forall>k. models s k \<noteq> None \<longrightarrow> metadata s k \<noteq> None)"

section \<open>Concrete inputs\<close>

text \<open>
  A combined forecast frame as the pages build it: the forecasts of several products
  concatenated with \<open>ignore_index=True\<close>, so the labels run \<open>0, 1, 2, ...\<close> over all the
  rows. Paneer is in none of the optimizer's tables.
\<close>

definition combined_forecasts :: frame where
  "combined_forecasts =
     \<lparr> has_product = True,
       rows =
         [\<lparr> row_label = 0, row_date = 1, row_product = ''Milk'', row_demand = 100 \<rparr>,
          \<lparr> row_label = 1, row_date = 2, row_product = ''Milk'', row_demand = 120 \<rparr>,
          \<lparr> row_label = 2, row_date = 1, row_product = ''Butter'', row_demand = 1 \<rparr>,
          \<lparr> row_label = 3, row_date = 2, row_product = ''Butter'', row_demand = 0 \<rparr>,
          \<lparr> row_label = 4, row_date = 1, row_product = ''Paneer'', row_demand = 10 \<rparr>] \<rparr>"

text \<open>
  A frame of small demands, the doubles \<open>0.0001\<close> and \<open>0.00001\<close>, as a forecast clamped
  at zero produces near zero; and a frame in which Cheese is not in demand.
\<close>

definition small_forecasts :: frame where
  "small_forecasts =
     \<lparr> has_product = True,
       rows =
         [\<lparr> row_label = 0, row_date = 1, row_product = ''Milk'',
            row_demand = fl (1 / 10000) \<rparr>,
          \<lparr> row_label = 1, row_date = 1, row_product = ''Paneer'',
            row_demand = fl (1 / 100000) \<rparr>] \<rparr>"

definition idle_forecasts :: frame where
  "idle_forecasts =
     \<lparr> has_product = True,
       rows =
         [\<lparr> row_label = 0, row_date = 1, row_product = ''Cheese'', row_demand = 0 \<rparr>,
          \<lparr> row_label = 1, row_date = 2, row_product = ''Cheese'', row_demand = 0 \<rparr>] \<rparr>"

text \<open>
  An instance of the libraries: a column is added up in row order, and a scalar is
  rounded as the builtin rounds.
\<close>

definition pandas_in_order :: pandas where
  "pandas_in_order =
     \<lparr> series_sum = foldl fadd 0,
       series_mean = (\<lambda>xs. fl (foldl fadd 0 xs / of_nat (length xs))),
       scalar_round = py_round \<rparr>"

text \<open>
  A forecaster with nothing in memory over an empty models directory, and one over a
  directory that holds the three files of Milk.
\<close>

definition fresh :: "'m forecaster" where
  "fresh = \<lparr> models = Map.empty, model_performance = Map.empty,
              metadata = Map.empty, models_dir = [] \<rparr>"

definition milk_metadata :: model_metadata where
  "milk_metadata = \<lparr> md_product = ''Milk'', trained_date = ''2024-01-31 10:00:00'',
                      data_points = 100, date_range_start = 0, date_range_end = 99 \<rparr>"

definition milk_on_disk :: "nat forecaster" where
  "milk_on_disk =
     fresh \<lparr> models_dir :=
               [(''Milk_model.pkl'', Pickled (Model 7)),
                (''Milk_performance.pkl'',
                 Pickled (unavailable ''Insufficient data for validation'')),
                (''Milk_metadata.pkl'', Pickled (Metadata milk_metadata))] \<rparr>"

text \<open>
  A stand-in for the library: fitting needs two rows and keeps the mode and the series;
  the forecast repeats the history and continues one above its last value. A series of
  \<open>n\<close> days of constant value 1.
\<close>

definition naive_prophet :: "(string \<times> series) prophet" where
  "naive_prophet =
     \<lparr> fit = (\<lambda>mode width data.
                if length data < 2 then Inl ''Dataframe has less than 2 non-NaN rows''
                else Inr (mode, data)),
       seasonality_mode = fst,
       predict = (\<lambda>m k. Inr (map snd (snd m) @ replicate k (snd (last (snd m)) + 1))) \<rparr>"

definition flat_series :: "nat \<Rightarrow> series" where
  "flat_series n = map (\<lambda>i. (int i, 1)) [0..<n]"

section \<open>Rounding to the nearest double\<close>

lemma bitlen_pos: "0 < n \<Longrightarrow> 0 < bitlen n"
  using bitlen_bounds [of n] by (cases "bitlen n \<le> 0") auto

lemma ilog2_bounds_ge1:
  assumes "1 \<le> x"
  shows "2 powi (ilog2 x) \<le> x" "x < 2 powi (ilog2 x + 1)"
proof -
  let ?n = "\<lfloor>x\<rfloor>"
  from assms have n: "0 < ?n" by simp
  then have b: "0 < bitlen ?n" by (rule bitlen_pos)
  from bitlen_bounds [OF n]
  have lo: "2 ^ nat (bitlen ?n - 1) \<le> ?n" and hi: "?n < 2 ^ nat (bitlen ?n)" by simp_all
  have e: "ilog2 x = bitlen ?n - 1" using assms by (simp add: ilog2_def)
  from lo have "(of_int (2 ^ nat (bitlen ?n - 1)) :: rat) \<le> of_int ?n"
    by (simp only: of_int_le_iff)
  then have "(2 :: rat) ^ nat (bitlen ?n - 1) \<le> of_int ?n" by simp
  also have "\<dots> \<le> x" by simp
  finally show "2 powi (ilog2 x) \<le> x"
    using b by (simp add: e power_int_def)
  from hi have "?n + 1 \<le> 2 ^ nat (bitlen ?n)" by simp
  then have "(of_int (?n + 1) :: rat) \<le> of_int (2 ^ nat (bitlen ?n))"
    by (simp only: of_int_le_iff)
  then have "of_int ?n + 1 \<le> (2 :: rat) ^ nat (bitlen ?n)" by simp
  moreover have "x < of_int ?n + 1" by linarith
  ultimately have "x < (2 :: rat) ^ nat (bitlen ?n)" by linarith
  then show "x < 2 powi (ilog2 x + 1)"
    using b by (simp add: e power_int_def)
qed

lemma ilog2_bounds_lt1:
  assumes "0 < x" "x < 1"
  shows "2 powi (ilog2 x) \<le> x" "x < 2 powi (ilog2 x + 1)"
proof -
  let ?y = "1 / x"
  let ?n = "\<lceil>?y\<rceil> - 1"
  from assms have y1: "1 < ?y" by simp
  then have n: "0 < ?n" by linarith
  then have b: "0 < bitlen ?n" by (rule bitlen_pos)
  from bitlen_bounds [OF n]
  have lo: "2 ^ nat (bitlen ?n - 1) \<le> ?n" and hi: "?n < 2 ^ nat (bitlen ?n)" by simp_all
  have e: "ilog2 x = - bitlen ?n" using assms by (simp add: ilog2_def)
  have ny: "of_int ?n < ?y" "?y \<le> of_int ?n + 1" by linarith+
  from hi have "?n + 1 \<le> 2 ^ nat (bitlen ?n)" by simp
  then have "(of_int (?n + 1) :: rat) \<le> of_int (2 ^ nat (bitlen ?n))"
    by (simp only: of_int_le_iff)
  then have "of_int ?n + 1 \<le> (2 :: rat) ^ nat (bitlen ?n)" by simp
  with ny have yhi: "?y \<le> (2 :: rat) ^ nat (bitlen ?n)" by linarith
  from lo have "(of_int (2 ^ nat (bitlen ?n - 1)) :: rat) \<le> of_int ?n"
    by (simp only: of_int_le_iff)
  then have "(2 :: rat) ^ nat (bitlen ?n - 1) \<le> of_int ?n" by simp
  with ny have ylo: "(2 :: rat) ^ nat (bitlen ?n - 1) < ?y" by linarith
  from yhi assms(1) have "1 \<le> x * 2 ^ nat (bitlen ?n)"
    by (simp add: field_simps)
  then have "1 / 2 ^ nat (bitlen ?n) \<le> x"
    by (simp add: field_simps)
  then show "2 powi (ilog2 x) \<le> x"
    using b by (simp add: e power_int_def field_simps)
  from ylo assms(1) have "x * 2 ^ nat (bitlen ?n - 1) < 1"
    by (simp add: field_simps)
  then have "x < 1 / 2 ^ nat (bitlen ?n - 1)"
    by (simp add: field_simps)
  moreover have "2 powi (ilog2 x + 1) = 1 / (2 :: rat) ^ nat (bitlen ?n - 1)"
  proof (cases "bitlen ?n = 1")
    case True
    then show ?thesis by (simp add: e)
  next
    case False
    with b have "- bitlen ?n + 1 < 0" by simp
    then show ?thesis
      by (simp add: e power_int_def field_simps nat_diff_distrib')
  qed
  ultimately show "x < 2 powi (ilog2 x + 1)" by simp
qed

lemma ilog2_bounds:
  assumes "0 < x"
  shows "2 powi (ilog2 x) \<le> x" "x < 2 powi (ilog2 x + 1)"
  using assms ilog2_bounds_ge1 [of x] ilog2_bounds_lt1 [of x]
  by (cases "1 \<le> x"; simp)+


lemma round_half_even_of_int: "round_half_even (of_int k) = k"
  by (simp add: round_half_even_def)

lemma round_half_even_ge_floor: "\<lfloor>x\<rfloor> \<le> round_half_even x"
  by (simp add: round_half_even_def Let_def)

lemma round_half_even_le_ceil: "round_half_even x \<le> \<lfloor>x\<rfloor> + 1"
  by (simp add: round_half_even_def Let_def)

lemma round_half_even_mono:
  assumes "x \<le> y"
  shows "round_half_even x \<le> round_half_even y"
proof (cases "\<lfloor>x\<rfloor> = \<lfloor>y\<rfloor>")
  case True
  with assms show ?thesis
    by (auto simp: round_half_even_def Let_def)
next
  case False
  from assms have "\<lfloor>x\<rfloor> \<le> \<lfloor>y\<rfloor>" by (rule floor_mono)
  with False have "\<lfloor>x\<rfloor> + 1 \<le> \<lfloor>y\<rfloor>" by simp
  with round_half_even_le_ceil [of x] round_half_even_ge_floor [of y]
  show ?thesis by linarith
qed

lemma ilog2_unique:
  assumes "0 < x" "2 powi e \<le> x" "x < 2 powi (e + 1)"
  shows "ilog2 x = e"
proof (rule ccontr)
  assume ne: "ilog2 x \<noteq> e"
  note b = ilog2_bounds [OF assms(1)]
  show False
  proof (cases "ilog2 x < e")
    case True
    then have "ilog2 x + 1 \<le> e" by simp
    then have "(2 :: rat) powi (ilog2 x + 1) \<le> 2 powi e"
      by (rule power_int_increasing) simp
    with b(2) assms(2) show False by linarith
  next
    case False
    with ne have "e + 1 \<le> ilog2 x" by simp
    then have "(2 :: rat) powi (e + 1) \<le> 2 powi (ilog2 x)"
      by (rule power_int_increasing) simp
    with b(1) assms(3) show False by linarith
  qed
qed

lemma quantum_pos: "0 < (2 :: rat) powi k"
  by simp

lemma scale_up:
  fixes x P C :: rat
  assumes "0 < P" "0 < C" "P \<le> x" "x < 2 * P"
  shows "C \<le> x / (P / C)" "x / (P / C) < 2 * C"
proof -
  have e: "x / (P / C) = x / P * C" by simp
  from assms(1,3) have "1 \<le> x / P" by (simp add: le_divide_eq)
  then have "1 * C \<le> x / P * C" using assms(2) by (intro mult_right_mono) simp_all
  then show "C \<le> x / (P / C)" by (simp only: e mult_1)
  from assms(1,4) have "x / P < 2" by (simp add: divide_less_eq)
  then have "x / P * C < 2 * C" using assms(2) by (intro mult_strict_right_mono)
  then show "x / (P / C) < 2 * C" by (simp only: e)
qed

lemma scale_down:
  fixes m P C :: rat
  assumes "0 < P" "0 < C" "C \<le> m" "m \<le> 2 * C"
  shows "P \<le> m * (P / C)" "m * (P / C) \<le> 2 * P"
proof -
  have e: "m * (P / C) = m / C * P" by simp
  from assms(2,3) have "1 \<le> m / C" by (simp add: le_divide_eq)
  then have "1 * P \<le> m / C * P" using assms(1) by (intro mult_right_mono) simp_all
  then show "P \<le> m * (P / C)" by (simp only: e mult_1)
  from assms(2,4) have "m / C \<le> 2" by (simp add: divide_le_eq)
  then have "m / C * P \<le> 2 * P" using assms(1) by (intro mult_right_mono) simp_all
  then show "m * (P / C) \<le> 2 * P" by (simp only: e)
qed

lemma quantum_eq: "(2 :: rat) powi (e - 52) = 2 powi e / 2 ^ 52"
  by (simp add: power_int_diff)

lemma scaled_bounds:
  assumes "0 < x"
  shows "2 ^ 52 \<le> x / 2 powi (ilog2 x - 52)" "x / 2 powi (ilog2 x - 52) < 2 ^ 53"
proof -
  let ?P = "(2 :: rat) powi (ilog2 x)"
  have p: "0 < ?P" by simp
  have c: "0 < (2 :: rat) ^ 52" by simp
  note b = ilog2_bounds [OF assms]
  have "(2 :: rat) powi (ilog2 x + 1) = 2 * ?P"
    by (rule power_int_add_1') simp
  with b(2) have hi: "x < 2 * ?P" by simp
  have d: "(2 :: rat) ^ 53 = 2 * 2 ^ 52" by simp
  from scale_up(1) [OF p c b(1) hi]
  show "2 ^ 52 \<le> x / 2 powi (ilog2 x - 52)" by (simp only: quantum_eq)
  from scale_up(2) [OF p c b(1) hi]
  show "x / 2 powi (ilog2 x - 52) < 2 ^ 53" by (simp only: quantum_eq d)
qed

lemma fl_zero [simp]: "fl 0 = 0"
  by (simp add: fl_def)

lemma fl_mantissa:
  assumes "0 < x"
  obtains m where "fl x = of_int m * 2 powi (ilog2 x - 52)" "2 ^ 52 \<le> m" "m \<le> 2 ^ 53"
proof -
  let ?q = "(2 :: rat) powi (ilog2 x - 52)"
  let ?m = "round_half_even (x / ?q)"
  from assms have f: "fl x = of_int ?m * ?q"
    by (simp add: fl_def Let_def)
  from scaled_bounds [OF assms]
  have "of_int (2 ^ 52) \<le> x / ?q" "x / ?q \<le> of_int (2 ^ 53)" by simp_all
  then have "round_half_even (of_int (2 ^ 52)) \<le> ?m"
    and "?m \<le> round_half_even (of_int (2 ^ 53))"
    by (simp_all only: round_half_even_mono)
  then have "2 ^ 52 \<le> ?m" "?m \<le> 2 ^ 53"
    by (simp_all only: round_half_even_of_int)
  with f show ?thesis by (rule that)
qed

lemma fl_bounds:
  assumes "0 < x"
  shows "2 powi (ilog2 x) \<le> fl x" "fl x \<le> 2 powi (ilog2 x + 1)"
proof -
  let ?P = "(2 :: rat) powi (ilog2 x)"
  obtain m where m: "fl x = of_int m * 2 powi (ilog2 x - 52)" "2 ^ 52 \<le> m" "m \<le> 2 ^ 53"
    using assms by (rule fl_mantissa)
  have p: "0 < ?P" by simp
  have c: "0 < (2 :: rat) ^ 52" by simp
  from m(2) have "(of_int (2 ^ 52) :: rat) \<le> of_int m" by (simp only: of_int_le_iff)
  then have lo: "(2 :: rat) ^ 52 \<le> of_int m" by simp
  from m(3) have "(of_int m :: rat) \<le> of_int (2 ^ 53)" by (simp only: of_int_le_iff)
  then have hi: "(of_int m :: rat) \<le> 2 * 2 ^ 52" by simp
  have t: "(2 :: rat) powi (ilog2 x + 1) = 2 * ?P"
    by (rule power_int_add_1') simp
  from scale_down(1) [OF p c lo hi]
  show "?P \<le> fl x" by (simp only: m(1) quantum_eq)
  from scale_down(2) [OF p c lo hi]
  show "fl x \<le> 2 powi (ilog2 x + 1)" by (simp only: m(1) quantum_eq t)
qed

lemma fl_pos: "0 < x \<Longrightarrow> 0 < fl x"
  using fl_bounds(1) [of x] quantum_pos [of "ilog2 x"] by linarith

lemma fl_nonneg: "0 \<le> x \<Longrightarrow> 0 \<le> fl x"
  using fl_pos [of x] by (cases "x = 0") auto

lemma fl_mono_pos:
  assumes "0 < x" "x \<le> y"
  shows "fl x \<le> fl y"
proof (cases "ilog2 x = ilog2 y")
  case True
  let ?q = "(2 :: rat) powi (ilog2 y - 52)"
  from assms have "x / ?q \<le> y / ?q" by (simp add: divide_right_mono)
  then have "round_half_even (x / ?q) \<le> round_half_even (y / ?q)"
    by (rule round_half_even_mono)
  then have "(of_int (round_half_even (x / ?q)) :: rat) * ?q \<le> of_int (round_half_even (y / ?q)) * ?q"
    by (simp add: mult_right_mono)
  with assms True show ?thesis by (simp add: fl_def Let_def)
next
  case False
  from assms have y: "0 < y" by simp
  have "ilog2 x < ilog2 y"
  proof (rule ccontr)
    assume "\<not> ilog2 x < ilog2 y"
    with False have "ilog2 y + 1 \<le> ilog2 x" by simp
    then have "(2 :: rat) powi (ilog2 y + 1) \<le> 2 powi (ilog2 x)"
      by (rule power_int_increasing) simp
    with ilog2_bounds(1) [OF assms(1)] ilog2_bounds(2) [OF y] assms(2)
    show False by linarith
  qed
  then have "ilog2 x + 1 \<le> ilog2 y" by simp
  then have "(2 :: rat) powi (ilog2 x + 1) \<le> 2 powi (ilog2 y)"
    by (rule power_int_increasing) simp
  with fl_bounds(2) [OF assms(1)] fl_bounds(1) [OF y] show ?thesis by linarith
qed

lemma fl_mono_nonneg:
  assumes "0 \<le> x" "x \<le> y"
  shows "fl x \<le> fl y"
proof (cases "x = 0")
  case True
  with assms fl_nonneg [of y] show ?thesis by simp
next
  case False
  with assms have "0 < x" by simp
  then show ?thesis using assms(2) by (rule fl_mono_pos)
qed

lemma fl_exact:
  assumes "0 < x" "x = of_int m * 2 powi (ilog2 x - 52)"
  shows "fl x = x"
proof -
  let ?q = "(2 :: rat) powi (ilog2 x - 52)"
  have "0 < ?q" by simp
  with assms(2) have "x / ?q = of_int m" by (simp add: field_simps)
  then have "round_half_even (x / ?q) = m" by (simp add: round_half_even_of_int)
  with assms show ?thesis by (simp add: fl_def Let_def)
qed

lemma fl_idem_pos:
  assumes "0 < x"
  shows "fl (fl x) = fl x"
proof -
  let ?e = "ilog2 x"
  obtain m where m: "fl x = of_int m * 2 powi (?e - 52)" "2 ^ 52 \<le> m" "m \<le> 2 ^ 53"
    using assms by (rule fl_mantissa)
  from assms have p: "0 < fl x" by (rule fl_pos)
  show ?thesis
  proof (cases "fl x < 2 powi (?e + 1)")
    case True
    with fl_bounds(1) [OF assms] p have "ilog2 (fl x) = ?e"
      by (intro ilog2_unique)
    with m(1) have "fl x = of_int m * 2 powi (ilog2 (fl x) - 52)" by simp
    with p show ?thesis by (rule fl_exact)
  next
    case False
    with fl_bounds(2) [OF assms] have eq: "fl x = 2 powi (?e + 1)" by simp
    have "(2 :: rat) powi (?e + 1 + 1) = 2 powi (?e + 1) * 2"
      by (rule power_int_add_1) simp
    then have "fl x < 2 powi (?e + 1 + 1)" using p by (simp add: eq)
    with p eq have i: "ilog2 (fl x) = ?e + 1"
      by (intro ilog2_unique) simp_all
    define Q where "Q = (2 :: rat) powi (?e + 1 - 52)"
    have "(2 :: rat) powi (?e + 1 - 52 + 52) = 2 powi (?e + 1 - 52) * 2 powi 52"
      by (rule power_int_add) simp
    moreover have "?e + 1 - 52 + 52 = ?e + 1" by simp
    ultimately have "(2 :: rat) powi (?e + 1) = Q * 2 powi 52"
      by (simp only: Q_def)
    then have k: "(2 :: rat) powi (?e + 1) = of_int (2 ^ 52) * Q" by simp
    from i have j: "Q = 2 powi (ilog2 (fl x) - 52)" by (simp add: Q_def)
    from eq k have "fl x = of_int (2 ^ 52) * Q" by simp
    then have "fl x = of_int (2 ^ 52) * 2 powi (ilog2 (fl x) - 52)"
      by (simp only: j)
    with p show ?thesis by (rule fl_exact)
  qed
qed

lemma fl_of_int_pos:
  assumes "0 < k" "k < 2 ^ 53"
  shows "fl (of_int k) = of_int k"
proof -
  let ?x = "of_int k :: rat"
  from assms have x: "0 < ?x" by simp
  have "ilog2 ?x < 53"
  proof (rule ccontr)
    assume "\<not> ilog2 ?x < 53"
    then have "(2 :: rat) powi 53 \<le> 2 powi (ilog2 ?x)"
      by (intro power_int_increasing) simp_all
    with ilog2_bounds(1) [OF x] have "(2 :: rat) ^ 53 \<le> of_int k" by simp
    then have "(of_int (2 ^ 53) :: rat) \<le> of_int k" by simp
    then have "2 ^ 53 \<le> k" by (simp only: of_int_le_iff)
    with assms(2) show False by simp
  qed
  then have n: "0 \<le> 52 - ilog2 ?x" by simp
  have "(2 :: rat) powi (ilog2 ?x - 52) * 2 powi (52 - ilog2 ?x) = 1"
    by (simp flip: power_int_add)
  then have "?x = ?x * 2 powi (52 - ilog2 ?x) * 2 powi (ilog2 ?x - 52)"
    by (simp add: mult.assoc mult.commute)
  also have "?x * 2 powi (52 - ilog2 ?x) = of_int (k * 2 ^ nat (52 - ilog2 ?x))"
    using n by (simp add: power_int_def)
  finally have "?x = of_int (k * 2 ^ nat (52 - ilog2 ?x)) * 2 powi (ilog2 ?x - 52)" .
  with x show ?thesis by (rule fl_exact)
qed

lemma fl_of_int:
  assumes "0 \<le> k" "k < 2 ^ 53"
  shows "fl (of_int k) = of_int k"
  using assms fl_of_int_pos [of k] by (cases "k = 0") auto

lemma round_half_even_upper: "of_int (round_half_even x) \<le> x + 1 / 2"
  unfolding round_half_even_def Let_def
  by (auto split: if_splits) linarith+

lemma round_half_even_nonneg: "0 \<le> x \<Longrightarrow> 0 \<le> round_half_even x"
  using round_half_even_mono [of 0 x] by (simp add: round_half_even_def)

lemma py_round_nonneg: "0 \<le> x \<Longrightarrow> 0 \<le> py_round x n"
  by (simp add: py_round_def fl_nonneg round_half_even_nonneg)

lemma py_round_mono_nonneg:
  assumes "0 \<le> x" "x \<le> y"
  shows "py_round x n \<le> py_round y n"
proof -
  from assms have "x * 10 ^ n \<le> y * 10 ^ n" by (simp add: mult_right_mono)
  then have "round_half_even (x * 10 ^ n) \<le> round_half_even (y * 10 ^ n)"
    by (rule round_half_even_mono)
  then have "(of_int (round_half_even (x * 10 ^ n)) :: rat) / 10 ^ n
               \<le> of_int (round_half_even (y * 10 ^ n)) / 10 ^ n"
    by (simp add: divide_right_mono)
  moreover from assms(1) have "0 \<le> round_half_even (x * 10 ^ n)"
    by (intro round_half_even_nonneg) simp
  then have "(0 :: rat) \<le> of_int (round_half_even (x * 10 ^ n)) / 10 ^ n" by simp
  ultimately show ?thesis
    unfolding py_round_def by (intro fl_mono_nonneg)
qed

lemma py_round_zero: "py_round 0 n = 0"
  by (simp add: py_round_def round_half_even_def)

lemma py_round_of_int:
  assumes "0 \<le> k" "k < 2 ^ 53"
  shows "py_round (of_int k) 0 = of_int k"
  using fl_of_int [OF assms] round_half_even_of_int [of k] by (simp add: py_round_def)

section \<open>The production plan has no failing division\<close>

lemma default_capacity_nonzero: "dict_get default_capacities product 1000 \<noteq> 0"
  by (simp add: dict_get_def default_capacities_def)

lemma capacity_for_nonzero: "capacity_for cc product \<noteq> 0"
  using default_capacity_nonzero [of product]
  by (simp add: capacity_for_def py_or_def split: option.splits)

lemma capacity_for_cases:
  "capacity_for custom_capacity product =
     (case custom_capacity of
        Some c \<Rightarrow>
          if c \<noteq> 0 then c
          else (case default_capacities product of Some k \<Rightarrow> k | None \<Rightarrow> 1000)
      | None \<Rightarrow> (case default_capacities product of Some k \<Rightarrow> k | None \<Rightarrow> 1000))"
  by (simp add: capacity_for_def py_or_def dict_get_def split: option.splits)

lemma production_row_ok:
  assumes "capacity \<noteq> 0"
  shows "production_row product ss capacity row = Inr (plan_row_for product ss capacity row)"
  using assms by (auto simp: production_row_def plan_row_for_def fdiv_def Let_def)

lemma production_loop_ok:
  assumes "capacity \<noteq> 0"
  shows "production_loop product ss capacity xs = Inr (map (plan_row_for product ss capacity) xs)"
  by (induction xs) (simp_all add: production_row_ok [OF assms])

lemma calculate_optimal_production_Some:
  assumes "product_forecasts fc product \<noteq> []"
  shows "calculate_optimal_production (Some fc) product ss cc =
           Inr (Some (map (plan_row_for product ss (capacity_for cc product))
                        (sort_key row_date (product_forecasts fc product))))"
proof -
  from assms have "rows fc \<noteq> []"
    by (auto simp: product_forecasts_def split: if_splits)
  with assms show ?thesis
    by (simp add: calculate_optimal_production_def Let_def
          production_loop_ok [OF capacity_for_nonzero])
qed

lemma calculate_optimal_production_rows:
  assumes "calculate_optimal_production forecasts product ss cc = Inr (Some plan)"
  shows "\<exists>fc. forecasts = Some fc \<and> product_forecasts fc product \<noteq> [] \<and>
           plan = map (plan_row_for product ss (capacity_for cc product))
                   (sort_key row_date (product_forecasts fc product))"
  using assms
  by (auto simp: calculate_optimal_production_def Let_def
           production_loop_ok [OF capacity_for_nonzero]
           split: option.splits if_splits)

lemma calculate_optimal_production_never_raises:
  "calculate_optimal_production forecasts product ss cc \<noteq> Inl e"
  by (auto simp: calculate_optimal_production_def Let_def
           production_loop_ok [OF capacity_for_nonzero]
           split: option.splits if_splits)

lemma plan_row_origin:
  assumes "calculate_optimal_production (Some fc) product ss cc = Inr (Some plan)" "r \<in> set plan"
  shows "\<exists>row \<in> set (product_forecasts fc product).
           r = plan_row_for product ss (capacity_for cc product) row"
proof -
  from calculate_optimal_production_rows [OF assms(1)]
  have "plan = map (plan_row_for product ss (capacity_for cc product))
                 (sort_key row_date (product_forecasts fc product))"
    by simp
  with assms(2) show ?thesis by auto
qed

section \<open>The production plan\<close>

lemma milk_plan_at_50:
  "calculate_optimal_production (Some combined_forecasts) ''Milk'' (fl (1 / 10)) (Some 50) =
     Inr (Some [\<lparr> date = 1, forecasted_demand = 100, optimal_production = 50,
                  capacity_utilization = 100, production_cost = 750,
                  potential_revenue = 1250, profit_margin = 40 \<rparr>,
                \<lparr> date = 2, forecasted_demand = 120, optimal_production = 50,
                  capacity_utilization = 100, production_cost = 750,
                  potential_revenue = 1250, profit_margin = 40 \<rparr>])"
  by code_simp

text \<open>
  Claim C1 says that every row follows the formulas for every capacity. With the
  capacity 0 the claim's \<open>min(adjusted_demand, capacity)\<close> is 0; the source replaces a
  capacity of 0 by the configured one (500 for Butter) and reports the production 1.
\<close>

theorem caller_capacity_zero_counterexample:
  "calculate_optimal_production (Some combined_forecasts) ''Butter'' (fl (1 / 10)) (Some 0) =
     Inr (Some [\<lparr> date = 1, forecasted_demand = 1, optimal_production = 1,
                  capacity_utilization = fl (1 / 5), production_cost = 330,
                  potential_revenue = 495, profit_margin = fl (333 / 10) \<rparr>,
                \<lparr> date = 2, forecasted_demand = 0, optimal_production = 0,
                  capacity_utilization = 0, production_cost = 0,
                  potential_revenue = 0, profit_margin = 0 \<rparr>])
   \<and> py_round (min (fmul 1 (fadd 1 (fl (1 / 10)))) 0) 0 = 0
   \<and> (0 :: rat) \<noteq> 1"
  by code_simp

text \<open>
  Claim C1, amended. For a series with at least one row for the product, every safety
  stock fraction and every capacity argument, \<open>calculate_optimal_production\<close> returns a
  plan and raises nothing. The plan has one row for each input row of the product, with
  its date and demand, and is in date order. With the capacity being the argument when
  one is given and is not zero, else the configured capacity of the product, else 1000,
  which is never zero, every row has, in double arithmetic, with
  \<open>adjusted_demand = demand * (1 + safety_stock)\<close> and
  \<open>production = min(adjusted_demand, capacity)\<close>: the reported production is
  \<open>production\<close> rounded to whole units, the utilization is
  \<open>production / capacity * 100\<close> rounded to one decimal, cost and revenue are
  \<open>production\<close> times the unit cost (0 for a product without one) and times the
  estimated price (100 for a product without one), rounded to two decimals, and the
  margin is \<open>(revenue - cost) / revenue * 100\<close> rounded to one decimal when the revenue
  is positive and 0 otherwise. Every rounding is applied to a value computed from the
  unrounded \<open>production\<close>.
\<close>

theorem production_rows_follow_formulas:
  assumes "product_forecasts fc product \<noteq> []"
  shows "\<exists>plan.
           calculate_optimal_production (Some fc) product safety_stock custom_capacity
             = Inr (Some plan)
         \<and> mset (map (\<lambda>r. (date r, forecasted_demand r)) plan) =
             mset (map (\<lambda>r. (row_date r, row_demand r)) (product_forecasts fc product))
         \<and> sorted (map date plan)
         \<and> (let capacity =
                  (case custom_capacity of
                     Some c \<Rightarrow>
                       if c \<noteq> 0 then c
                       else (case default_capacities product of Some k \<Rightarrow> k | None \<Rightarrow> 1000)
                   | None \<Rightarrow> (case default_capacities product of Some k \<Rightarrow> k | None \<Rightarrow> 1000));
                 unit_cost = (case production_costs product of Some c \<Rightarrow> c | None \<Rightarrow> 0);
                 unit_price = (case price_estimates product of Some p \<Rightarrow> p | None \<Rightarrow> 100)
             in capacity \<noteq> 0
              \<and> (\<forall>r \<in> set plan.
                    let adjusted_demand = fmul (forecasted_demand r) (fadd 1 safety_stock);
                        production = min adjusted_demand capacity;
                        cost = fmul production unit_cost;
                        revenue = fmul production unit_price
                    in optimal_production r = py_round production 0
                     \<and> capacity_utilization r
                         = py_round (fmul (fl (production / capacity)) 100) 1
                     \<and> production_cost r = py_round cost 2
                     \<and> potential_revenue r = py_round revenue 2
                     \<and> profit_margin r =
                         (if 0 < revenue
                          then py_round (fmul (fl (fsub revenue cost / revenue)) 100) 1
                          else 0)))"
proof -
  let ?cap = "capacity_for custom_capacity product"
  let ?pf = "product_forecasts fc product"
  let ?plan = "map (plan_row_for product safety_stock ?cap) (sort_key row_date ?pf)"
  have run: "calculate_optimal_production (Some fc) product safety_stock custom_capacity
               = Inr (Some ?plan)"
    using assms by (rule calculate_optimal_production_Some)
  have "map (\<lambda>r. (date r, forecasted_demand r)) ?plan =
          map (\<lambda>r. (row_date r, row_demand r)) (sort_key row_date ?pf)"
    by (simp add: plan_row_for_def Let_def comp_def)
  then have keys: "mset (map (\<lambda>r. (date r, forecasted_demand r)) ?plan) =
               mset (map (\<lambda>r. (row_date r, row_demand r)) ?pf)"
    by (simp only: mset_map mset_sort)
  have "map date ?plan = map row_date (sort_key row_date ?pf)"
    by (simp add: plan_row_for_def Let_def comp_def)
  then have ord: "sorted (map date ?plan)"
    by (simp only: sorted_sort_key)
  have each: "\<forall>r \<in> set ?plan.
                    let adjusted_demand = fmul (forecasted_demand r) (fadd 1 safety_stock);
                        production = min adjusted_demand ?cap;
                        cost = fmul production (dict_get production_costs product 0);
                        revenue = fmul production (estimate_price product)
                    in optimal_production r = py_round production 0
                     \<and> capacity_utilization r
                         = py_round (fmul (fl (production / ?cap)) 100) 1
                     \<and> production_cost r = py_round cost 2
                     \<and> potential_revenue r = py_round revenue 2
                     \<and> profit_margin r =
                         (if 0 < revenue
                          then py_round (fmul (fl (fsub revenue cost / revenue)) 100) 1
                          else 0)"
    by (auto simp: plan_row_for_def Let_def)
  have tables:
    "dict_get production_costs product 0
       = (case production_costs product of Some c \<Rightarrow> c | None \<Rightarrow> 0)"
    "estimate_price product = (case price_estimates product of Some p \<Rightarrow> p | None \<Rightarrow> 100)"
    by (simp_all add: dict_get_def estimate_price_def)
  from each capacity_for_nonzero [of custom_capacity product]
  have "let capacity =
                  (case custom_capacity of
                     Some c \<Rightarrow>
                       if c \<noteq> 0 then c
                       else (case default_capacities product of Some k \<Rightarrow> k | None \<Rightarrow> 1000)
                   | None \<Rightarrow> (case default_capacities product of Some k \<Rightarrow> k | None \<Rightarrow> 1000));
                 unit_cost = (case production_costs product of Some c \<Rightarrow> c | None \<Rightarrow> 0);
                 unit_price = (case price_estimates product of Some p \<Rightarrow> p | None \<Rightarrow> 100)
             in capacity \<noteq> 0
              \<and> (\<forall>r \<in> set ?plan.
                    let adjusted_demand = fmul (forecasted_demand r) (fadd 1 safety_stock);
                        production = min adjusted_demand capacity;
                        cost = fmul production unit_cost;
                        revenue = fmul production unit_price
                    in optimal_production r = py_round production 0
                     \<and> capacity_utilization r
                         = py_round (fmul (fl (production / capacity)) 100) 1
                     \<and> production_cost r = py_round cost 2
                     \<and> potential_revenue r = py_round revenue 2
                     \<and> profit_margin r =
                         (if 0 < revenue
                          then py_round (fmul (fl (fsub revenue cost / revenue)) 100) 1
                          else 0))"
    unfolding tables capacity_for_cases [of custom_capacity product] Let_def
    by blast
  with run keys ord show ?thesis by blast
qed

theorem production_rows_follow_formulas_witness:
  "product_forecasts combined_forecasts ''Milk'' \<noteq> []
   \<and> (\<exists>plan. calculate_optimal_production (Some combined_forecasts) ''Milk'' (fl (1 / 10)) None
                = Inr (Some plan)
        \<and> map (\<lambda>r. (date r, forecasted_demand r)) plan = [(1, 100), (2, 120)]
        \<and> map optimal_production plan = [110, 132])"
proof -
  have h: "product_forecasts combined_forecasts ''Milk'' \<noteq> []"
    by code_simp
  have e: "calculate_optimal_production (Some combined_forecasts) ''Milk'' (fl (1 / 10)) None =
     Inr (Some [\<lparr> date = 1, forecasted_demand = 100, optimal_production = 110,
                  capacity_utilization = 11 / 2, production_cost = 1650,
                  potential_revenue = 2750, profit_margin = 40 \<rparr>,
                \<lparr> date = 2, forecasted_demand = 120, optimal_production = 132,
                  capacity_utilization = fl (33 / 5), production_cost = 1980,
                  potential_revenue = 3300, profit_margin = 40 \<rparr>])"
    by code_simp
  show ?thesis
    using h e production_rows_follow_formulas [OF h, of "fl (1 / 10)" None] by simp
qed

section \<open>Which capacity is used\<close>

text \<open>
  Claim C8 says the capacity of every row is the caller's override whenever one is given.
  The source writes \<open>custom_capacity or default\<close>, and Python's \<open>or\<close> passes over a zero
  as it passes over \<open>None\<close>: with the override 0 the plan for Milk is computed with the
  configured 2000, where a capacity of 0 would give a production of 0.
\<close>

theorem zero_override_counterexample:
  "calculate_optimal_production (Some combined_forecasts) ''Milk'' (fl (1 / 10)) (Some 0) =
     Inr (Some [\<lparr> date = 1, forecasted_demand = 100, optimal_production = 110,
                  capacity_utilization = 11 / 2, production_cost = 1650,
                  potential_revenue = 2750, profit_margin = 40 \<rparr>,
                \<lparr> date = 2, forecasted_demand = 120, optimal_production = 132,
                  capacity_utilization = fl (33 / 5), production_cost = 1980,
                  potential_revenue = 3300, profit_margin = 40 \<rparr>])
   \<and> capacity_for (Some 0) ''Milk'' = 2000
   \<and> py_round (min (fmul 100 (fadd 1 (fl (1 / 10)))) 0) 0 \<noteq> 110"
  by code_simp

text \<open>
  Claim C8, amended. In every row of every plan the capacity used is the caller's
  override when one is given and is not zero; otherwise the product's configured default
  daily capacity; otherwise, for a product that is not in the table, 1000.
\<close>

theorem capacity_override_unless_zero:
  assumes "calculate_optimal_production forecasts product safety_stock custom_capacity
             = Inr (Some plan)"
  shows "let capacity =
               (case custom_capacity of
                  Some c \<Rightarrow>
                    if c \<noteq> 0 then c
                    else (case default_capacities product of Some k \<Rightarrow> k | None \<Rightarrow> 1000)
                | None \<Rightarrow> (case default_capacities product of Some k \<Rightarrow> k | None \<Rightarrow> 1000))
         in \<forall>r \<in> set plan.
               optimal_production r =
                 py_round (min (fmul (forecasted_demand r) (fadd 1 safety_stock)) capacity) 0
             \<and> capacity_utilization r =
                 py_round (fmul (fl (min (fmul (forecasted_demand r) (fadd 1 safety_stock))
                                       capacity / capacity)) 100) 1"
proof -
  from calculate_optimal_production_rows [OF assms]
  have "\<forall>r \<in> set plan.
          optimal_production r =
            py_round (min (fmul (forecasted_demand r) (fadd 1 safety_stock))
                        (capacity_for custom_capacity product)) 0
        \<and> capacity_utilization r =
            py_round (fmul (fl (min (fmul (forecasted_demand r) (fadd 1 safety_stock))
                                  (capacity_for custom_capacity product)
                                / capacity_for custom_capacity product)) 100) 1"
    by (auto simp: plan_row_for_def Let_def)
  then show ?thesis
    unfolding capacity_for_cases [of custom_capacity product] Let_def .
qed

theorem capacity_override_unless_zero_witness:
  "calculate_optimal_production (Some combined_forecasts) ''Milk'' (fl (1 / 10)) (Some 50) =
     Inr (Some [\<lparr> date = 1, forecasted_demand = 100, optimal_production = 50,
                  capacity_utilization = 100, production_cost = 750,
                  potential_revenue = 1250, profit_margin = 40 \<rparr>,
                \<lparr> date = 2, forecasted_demand = 120, optimal_production = 50,
                  capacity_utilization = 100, production_cost = 750,
                  potential_revenue = 1250, profit_margin = 40 \<rparr>])
   \<and> py_round (min (fmul 100 (fadd 1 (fl (1 / 10)))) 50) 0 = 50
   \<and> py_round (fmul (fl (min (fmul 100 (fadd 1 (fl (1 / 10)))) 50 / 50)) 100) 1 = 100
   \<and> py_round (min (fmul 120 (fadd 1 (fl (1 / 10)))) 50) 0 = 50
   \<and> py_round (fmul (fl (min (fmul 120 (fadd 1 (fl (1 / 10)))) 50 / 50)) 100) 1 = 100"
proof -
  note e = milk_plan_at_50
  from capacity_override_unless_zero [OF e] e show ?thesis
    by (simp add: Let_def)
qed

section \<open>Bounds on the production\<close>

text \<open>
  Claim C4 says that with non-negative demand every row has
  \<open>0 \<le> optimal_production \<le> capacity\<close>, for every capacity. The reported production is
  rounded to whole units after the capacity has been applied: with the capacity 80.6 the
  production 80.6 is reported as 81. A negative capacity, or a safety stock fraction below
  \<open>-1\<close>, gives a negative production.
\<close>

theorem fractional_capacity_counterexample:
  "calculate_optimal_production (Some combined_forecasts) ''Milk'' (fl (1 / 10))
     (Some (fl (403 / 5))) =
     Inr (Some [\<lparr> date = 1, forecasted_demand = 100, optimal_production = 81,
                  capacity_utilization = 100, production_cost = 1209,
                  potential_revenue = 2015, profit_margin = 40 \<rparr>,
                \<lparr> date = 2, forecasted_demand = 120, optimal_production = 81,
                  capacity_utilization = 100, production_cost = 1209,
                  potential_revenue = 2015, profit_margin = 40 \<rparr>])
   \<and> capacity_for (Some (fl (403 / 5))) ''Milk'' = fl (403 / 5)
   \<and> \<not> ((81 :: rat) \<le> fl (403 / 5))
   \<and> calculate_optimal_production (Some combined_forecasts) ''Milk'' (fl (1 / 10)) (Some (- 5)) =
     Inr (Some [\<lparr> date = 1, forecasted_demand = 100, optimal_production = - 5,
                  capacity_utilization = 100, production_cost = - 75,
                  potential_revenue = - 125, profit_margin = 0 \<rparr>,
                \<lparr> date = 2, forecasted_demand = 120, optimal_production = - 5,
                  capacity_utilization = 100, production_cost = - 75,
                  potential_revenue = - 125, profit_margin = 0 \<rparr>])
   \<and> calculate_optimal_production (Some combined_forecasts) ''Milk'' (- 2) None =
     Inr (Some [\<lparr> date = 1, forecasted_demand = 100, optimal_production = - 100,
                  capacity_utilization = - 5, production_cost = - 1500,
                  potential_revenue = - 2500, profit_margin = 0 \<rparr>,
                \<lparr> date = 2, forecasted_demand = 120, optimal_production = - 120,
                  capacity_utilization = - 6, production_cost = - 1800,
                  potential_revenue = - 3000, profit_margin = 0 \<rparr>])"
  by code_simp

text \<open>
  Claim C4, amended. For a series whose demands for the product are non-negative, a
  safety stock fraction of at least \<open>-1\<close> and a positive capacity, every row has
  \<open>0 \<le> optimal_production\<close> and \<open>optimal_production\<close> at most the capacity rounded to a
  whole number; so at most the capacity when the capacity is a whole number (below
  \<open>2^53\<close>, as a whole number held in a double is), as every configured default is.
\<close>

theorem production_within_rounded_capacity:
  assumes "calculate_optimal_production (Some fc) product safety_stock custom_capacity
             = Inr (Some plan)"
    and "\<forall>row \<in> set (product_forecasts fc product). 0 \<le> row_demand row"
    and "0 \<le> 1 + safety_stock"
    and "0 < capacity_for custom_capacity product"
  shows "\<forall>r \<in> set plan.
           0 \<le> optimal_production r
         \<and> optimal_production r \<le> py_round (capacity_for custom_capacity product) 0
         \<and> (capacity_for custom_capacity product \<in> \<int>
              \<and> capacity_for custom_capacity product < 2 ^ 53
              \<longrightarrow> optimal_production r \<le> capacity_for custom_capacity product)"
proof
  fix r assume "r \<in> set plan"
  let ?cap = "capacity_for custom_capacity product"
  from plan_row_origin [OF assms(1) \<open>r \<in> set plan\<close>]
  obtain row where row: "row \<in> set (product_forecasts fc product)"
    and r: "r = plan_row_for product safety_stock ?cap row"
    by blast
  define qty where "qty = min (fmul (row_demand row) (fadd 1 safety_stock)) ?cap"
  have op: "optimal_production r = py_round qty 0"
    by (simp add: r plan_row_for_def Let_def qty_def)
  from row assms(2) have "0 \<le> row_demand row" by blast
  moreover from assms(3) have "0 \<le> fadd 1 safety_stock"
    by (simp add: fadd_def fl_nonneg)
  ultimately have "0 \<le> fmul (row_demand row) (fadd 1 safety_stock)"
    by (simp add: fmul_def fl_nonneg)
  with assms(4) have q0: "0 \<le> qty" by (simp add: qty_def)
  then have lo: "0 \<le> optimal_production r"
    by (simp add: op py_round_nonneg)
  have "qty \<le> ?cap" by (simp add: qty_def)
  with q0 have hi: "optimal_production r \<le> py_round ?cap 0"
    unfolding op by (rule py_round_mono_nonneg)
  have "optimal_production r \<le> ?cap" if "?cap \<in> \<int>" "?cap < 2 ^ 53"
  proof -
    from that(1) obtain k where k: "?cap = of_int k" by (auto elim: Ints_cases)
    with assms(4) have "0 \<le> k" by simp
    moreover from that(2) k have "(of_int k :: rat) < of_int (2 ^ 53)" by simp
    then have "k < 2 ^ 53" by (simp only: of_int_less_iff)
    ultimately have "py_round (of_int k) 0 = of_int k" by (rule py_round_of_int)
    with hi k show ?thesis by simp
  qed
  with lo hi show "0 \<le> optimal_production r
         \<and> optimal_production r \<le> py_round ?cap 0
         \<and> (?cap \<in> \<int> \<and> ?cap < 2 ^ 53 \<longrightarrow> optimal_production r \<le> ?cap)"
    by blast
qed

theorem production_within_rounded_capacity_witness:
  "calculate_optimal_production (Some combined_forecasts) ''Milk'' (fl (1 / 10)) (Some 50) =
     Inr (Some [\<lparr> date = 1, forecasted_demand = 100, optimal_production = 50,
                  capacity_utilization = 100, production_cost = 750,
                  potential_revenue = 1250, profit_margin = 40 \<rparr>,
                \<lparr> date = 2, forecasted_demand = 120, optimal_production = 50,
                  capacity_utilization = 100, production_cost = 750,
                  potential_revenue = 1250, profit_margin = 40 \<rparr>])
   \<and> map row_demand (product_forecasts combined_forecasts ''Milk'') = [100, 120]
   \<and> (0 :: rat) \<le> 1 + fl (1 / 10)
   \<and> 0 < capacity_for (Some 50) ''Milk''
   \<and> capacity_for (Some 50) ''Milk'' \<in> \<int>
   \<and> capacity_for (Some 50) ''Milk'' < 2 ^ 53
   \<and> (0 :: rat) \<le> 50
   \<and> 50 \<le> py_round (capacity_for (Some 50) ''Milk'') 0
   \<and> 50 \<le> capacity_for (Some 50) ''Milk''"
proof -
  note e = milk_plan_at_50
  have m: "map row_demand (product_forecasts combined_forecasts ''Milk'') = [100, 120]"
    by code_simp
  have "\<forall>v \<in> set (map row_demand (product_forecasts combined_forecasts ''Milk'')). 0 \<le> v"
    by (simp only: m) simp
  then have d: "\<forall>row \<in> set (product_forecasts combined_forecasts ''Milk''). 0 \<le> row_demand row"
    by simp
  have s: "(0 :: rat) \<le> 1 + fl (1 / 10)"
    using fl_nonneg [of "1 / 10"] by simp
  have c: "capacity_for (Some 50) ''Milk'' = 50"
    by (simp add: capacity_for_def py_or_def)
  then have c0: "0 < capacity_for (Some 50) ''Milk''" by simp
  from c have ci: "capacity_for (Some 50) ''Milk'' \<in> \<int>" by simp
  from c have cb: "capacity_for (Some 50) ''Milk'' < 2 ^ 53" by simp
  from production_within_rounded_capacity [OF e d s c0] ci cb
  have "(0 :: rat) \<le> 50 \<and> 50 \<le> py_round (capacity_for (Some 50) ''Milk'') 0
        \<and> 50 \<le> capacity_for (Some 50) ''Milk''"
    by simp
  with e m s c0 ci cb show ?thesis by blast
qed

section \<open>Products outside the tables\<close>

lemma py_round_0_pos_half:
  assumes "0 < py_round x 0"
  shows "1 / 2 \<le> x"
proof -
  have "round_half_even x \<le> 0 \<Longrightarrow> py_round x 0 \<le> 0"
  proof -
    assume "round_half_even x \<le> 0"
    then have "(of_int (round_half_even x) :: rat) \<le> 0" by simp
    then have "- (of_int (round_half_even x) :: rat) \<ge> 0" by simp
    show ?thesis
    proof (cases "round_half_even x = 0")
      case True
      then show ?thesis by (simp add: py_round_def)
    next
      case False
      with \<open>round_half_even x \<le> 0\<close> have neg: "(of_int (round_half_even x) :: rat) < 0"
        by simp
      let ?y = "of_int (round_half_even x) :: rat"
      let ?q = "(2 :: rat) powi (ilog2 \<bar>?y\<bar> - 52)"
      have q: "0 < ?q" by simp
      from neg q have "?y / ?q \<le> 0" by (simp add: divide_nonpos_pos)
      then have "round_half_even (?y / ?q) \<le> round_half_even 0"
        by (rule round_half_even_mono)
      then have "round_half_even (?y / ?q) \<le> 0"
        by (simp add: round_half_even_def)
      then have "(of_int (round_half_even (?y / ?q)) :: rat) * ?q \<le> 0"
        using q by (simp add: mult_nonpos_nonneg)
      with neg show ?thesis by (simp add: py_round_def fl_def Let_def)
    qed
  qed
  with assms have "0 < round_half_even x" by (cases "round_half_even x \<le> 0") auto
  then have "(1 :: rat) \<le> of_int (round_half_even x)" by linarith
  with round_half_even_upper [of x] show ?thesis by linarith
qed

lemma fl_100: "fl 100 = 100"
  using fl_of_int [of 100] by simp

lemma fl_1: "fl 1 = 1"
  using fl_of_int [of 1] by simp

lemma py_round_100: "py_round 100 (Suc 0) = 100"
  using round_half_even_of_int [of 1000] by (simp add: py_round_def fl_100)

lemma fl_50: "fl 50 = 50"
  using fl_of_int [of 50] by simp

text \<open>
  Claim C10 says that for a product in none of the tables every output row with positive
  production has a positive potential revenue. The reported revenue is rounded to two
  decimals: for Paneer with the demand \<open>0.00001\<close> the production is positive and the
  revenue of about \<open>0.0011\<close> is reported as 0.
\<close>

theorem small_production_revenue_counterexample:
  "calculate_optimal_production (Some small_forecasts) ''Paneer'' (fl (1 / 10)) None =
     Inr (Some [\<lparr> date = 1, forecasted_demand = fl (1 / 100000), optimal_production = 0,
                  capacity_utilization = 0, production_cost = 0,
                  potential_revenue = 0, profit_margin = 100 \<rparr>])
   \<and> 0 < min (fmul (fl (1 / 100000)) (fadd 1 (fl (1 / 10)))) 1000
   \<and> \<not> (0 :: rat) < 0"
  by code_simp

text \<open>
  Claim C10, amended. For a product that is in none of the configured tables the unit
  production cost is 0 and the estimated unit price is 100. Every row of its plan with a
  positive production (before rounding) has production cost 0, profit margin 100 and a
  potential revenue that is not negative; and every row whose reported production is
  positive has production cost 0, profit margin 100 and a positive potential revenue.
\<close>

theorem unknown_product_margin_is_100:
  assumes "default_capacities product = None"
    and "production_costs product = None"
    and "price_estimates product = None"
    and "calculate_optimal_production forecasts product safety_stock custom_capacity
           = Inr (Some plan)"
  shows "dict_get production_costs product 0 = 0
       \<and> estimate_price product = 100
       \<and> (let capacity = (case custom_capacity of
                             Some c \<Rightarrow> if c \<noteq> 0 then c else 1000
                           | None \<Rightarrow> 1000)
          in \<forall>r \<in> set plan.
               (0 < min (fmul (forecasted_demand r) (fadd 1 safety_stock)) capacity
                  \<longrightarrow> production_cost r = 0 \<and> 0 \<le> potential_revenue r
                      \<and> profit_margin r = 100)
             \<and> (0 < optimal_production r
                  \<longrightarrow> production_cost r = 0 \<and> 0 < potential_revenue r
                      \<and> profit_margin r = 100))"
proof -
  have cost: "dict_get production_costs product 0 = 0"
    using assms(2) by (simp add: dict_get_def)
  have price: "estimate_price product = 100"
    using assms(3) by (simp add: estimate_price_def dict_get_def)
  let ?cap = "capacity_for custom_capacity product"
  have cap: "?cap = (case custom_capacity of
                       Some c \<Rightarrow> if c \<noteq> 0 then c else 1000 | None \<Rightarrow> 1000)"
    using assms(1) by (simp add: capacity_for_cases split: option.splits)
  have "(0 < min (fmul (forecasted_demand r) (fadd 1 safety_stock)) ?cap
                  \<longrightarrow> production_cost r = 0 \<and> 0 \<le> potential_revenue r
                      \<and> profit_margin r = 100)
             \<and> (0 < optimal_production r
                  \<longrightarrow> production_cost r = 0 \<and> 0 < potential_revenue r
                      \<and> profit_margin r = 100)"
    if "r \<in> set plan" for r
  proof -
    from calculate_optimal_production_rows [OF assms(4)] that
    obtain row where r: "r = plan_row_for product safety_stock ?cap row"
      by auto
    define qty where "qty = min (fmul (row_demand row) (fadd 1 safety_stock)) ?cap"
    define rev where "rev = fmul qty 100"
    have fd: "forecasted_demand r = row_demand row"
      by (simp add: r plan_row_for_def Let_def)
    have fields:
      "optimal_production r = py_round qty 0"
      "production_cost r = py_round (fmul qty 0) 2"
      "potential_revenue r = py_round rev 2"
      "profit_margin r =
         (if 0 < rev then py_round (fmul (fl (fsub rev (fmul qty 0) / rev)) 100) 1 else 0)"
      by (simp_all add: r plan_row_for_def Let_def cost price qty_def rev_def)
    have c: "production_cost r = 0"
      by (simp add: fields fmul_def py_round_zero)
    have pos: "production_cost r = 0 \<and> 0 \<le> potential_revenue r \<and> profit_margin r = 100"
      if q: "0 < qty"
    proof -
      from q have rp: "0 < rev" by (simp add: rev_def fmul_def fl_pos)
      then have "0 \<le> potential_revenue r" by (simp add: fields py_round_nonneg)
      moreover from q have "fl rev = rev"
        by (simp add: rev_def fmul_def fl_idem_pos)
      with rp have "fmul (fl (fsub rev (fmul qty 0) / rev)) 100 = 100"
        by (simp add: fsub_def fmul_def fl_1 fl_100)
      with rp have "profit_margin r = 100"
        by (simp add: fields py_round_100)
      ultimately show ?thesis using c by blast
    qed
    have rep: "production_cost r = 0 \<and> 0 < potential_revenue r \<and> profit_margin r = 100"
      if o: "0 < optimal_production r"
    proof -
      from o have "0 < py_round qty 0" by (simp add: fields)
      then have half: "1 / 2 \<le> qty" by (rule py_round_0_pos_half)
      then have q: "0 < qty" by linarith
      from half have "50 \<le> qty * 100" by simp
      then have "fl 50 \<le> fl (qty * 100)" by (intro fl_mono_nonneg) simp_all
      then have r50: "50 \<le> rev" by (simp add: rev_def fmul_def fl_50)
      then have "of_int 5000 \<le> rev * 10 ^ 2" by simp
      then have "round_half_even (of_int 5000) \<le> round_half_even (rev * 10 ^ 2)"
        by (rule round_half_even_mono)
      then have "5000 \<le> round_half_even (rev * 10 ^ 2)"
        by (simp only: round_half_even_of_int)
      then have "(0 :: rat) < of_int (round_half_even (rev * 10 ^ 2)) / 10 ^ 2" by simp
      then have "0 < py_round rev 2"
        unfolding py_round_def by (rule fl_pos)
      with pos [OF q] show ?thesis by (simp add: fields)
    qed
    from pos rep show ?thesis by (simp add: fd qty_def)
  qed
  with cost price show ?thesis by (simp add: cap Let_def)
qed

theorem unknown_product_margin_is_100_witness:
  "default_capacities ''Paneer'' = None
   \<and> production_costs ''Paneer'' = None
   \<and> price_estimates ''Paneer'' = None
   \<and> calculate_optimal_production (Some combined_forecasts) ''Paneer'' (fl (1 / 10)) None =
       Inr (Some [\<lparr> date = 1, forecasted_demand = 10, optimal_production = 11,
                    capacity_utilization = fl (11 / 10), production_cost = 0,
                    potential_revenue = 1100, profit_margin = 100 \<rparr>])
   \<and> dict_get production_costs ''Paneer'' 0 = 0
   \<and> estimate_price ''Paneer'' = 100
   \<and> 0 < min (fmul 10 (fadd 1 (fl (1 / 10)))) 1000
   \<and> (0 :: rat) < 11"
proof -
  have a: "default_capacities ''Paneer'' = None" by code_simp
  have b: "production_costs ''Paneer'' = None" by code_simp
  have c: "price_estimates ''Paneer'' = None" by code_simp
  have e: "calculate_optimal_production (Some combined_forecasts) ''Paneer'' (fl (1 / 10)) None =
       Inr (Some [\<lparr> date = 1, forecasted_demand = 10, optimal_production = 11,
                    capacity_utilization = fl (11 / 10), production_cost = 0,
                    potential_revenue = 1100, profit_margin = 100 \<rparr>])"
    by code_simp
  have p: "0 < min (fmul 10 (fadd 1 (fl (1 / 10)))) 1000" by code_simp
  from unknown_product_margin_is_100 [OF a b c e] a b c e p
  show ?thesis by (simp add: Let_def)
qed

section \<open>Profit margins\<close>

lemma summary_loop_result:
  "\<exists>analysis'.
     summary_loop lib forecasts products (analysis, c, r) =
       Inr (analysis',
            foldl (\<lambda>total product.
                     case calculate_optimal_production forecasts product (fl (1 / 10)) None of
                       Inr (Some plan) \<Rightarrow>
                         if plan = [] then total
                         else fadd total (series_sum lib (map production_cost plan))
                     | _ \<Rightarrow> total) c products,
            foldl (\<lambda>total product.
                     case calculate_optimal_production forecasts product (fl (1 / 10)) None of
                       Inr (Some plan) \<Rightarrow>
                         if plan = [] then total
                         else fadd total (series_sum lib (map potential_revenue plan))
                     | _ \<Rightarrow> total) r products)"
proof (induction products arbitrary: analysis c r)
  case Nil
  show ?case by simp
next
  case (Cons product others)
  show ?case
  proof (cases "calculate_optimal_production forecasts product (fl (1 / 10)) None")
    case (Inl e)
    with calculate_optimal_production_never_raises show ?thesis by blast
  next
    case (Inr res)
    show ?thesis
    proof (cases res)
      case None
      with Inr Cons [of analysis c r] show ?thesis by simp
    next
      case (Some plan)
      show ?thesis
      proof (cases "plan = []")
        case True
        with Inr Some Cons [of analysis c r] show ?thesis by simp
      next
        case False
        with Inr Some
          Cons [of "AList.update product (summarize_product lib product plan) analysis"
                   "fadd c (series_sum lib (map production_cost plan))"
                   "fadd r (series_sum lib (map potential_revenue plan))"]
        show ?thesis by (simp add: Let_def summarize_product_def)
      qed
    qed
  qed
qed

lemma generate_optimization_summary_result:
  "\<exists>s. generate_optimization_summary lib forecasts products horizon = Inr s
      \<and> overall_profit_margin (overall_metrics s) =
          (let R = total_over lib potential_revenue forecasts products;
               C = total_over lib production_cost forecasts products
           in if 0 < R then scalar_round lib (fmul (fl (fsub R C / R)) 100) 1 else 0)"
proof -
  from summary_loop_result [of lib forecasts products "[]" 0 0]
  obtain a where
    l: "summary_loop lib forecasts products ([], 0, 0) =
          Inr (a, total_over lib production_cost forecasts products,
                  total_over lib potential_revenue forecasts products)"
    unfolding total_over_def by blast
  show ?thesis
    by (cases "0 < total_over lib potential_revenue forecasts products")
       (simp_all add: generate_optimization_summary_def l scalar_div_def Let_def)
qed

lemma butter_plan:
  "calculate_optimal_production (Some combined_forecasts) ''Butter'' (fl (1 / 10)) None =
     Inr (Some [\<lparr> date = 1, forecasted_demand = 1, optimal_production = 1,
                  capacity_utilization = fl (1 / 5), production_cost = 330,
                  potential_revenue = 495, profit_margin = fl (333 / 10) \<rparr>,
                \<lparr> date = 2, forecasted_demand = 0, optimal_production = 0,
                  capacity_utilization = 0, production_cost = 0,
                  potential_revenue = 0, profit_margin = 0 \<rparr>])"
  by code_simp

lemma butter_totals:
  "total_over pandas_in_order potential_revenue (Some combined_forecasts) [''Butter''] = 495"
  "total_over pandas_in_order production_cost (Some combined_forecasts) [''Butter''] = 330"
  by (simp_all add: total_over_def butter_plan pandas_in_order_def fadd_def)
     (simp_all add: fl_of_int [of 495, simplified] fl_of_int [of 330, simplified])

lemma cheese_plan:
  "calculate_optimal_production (Some idle_forecasts) ''Cheese'' (fl (1 / 10)) None =
     Inr (Some [\<lparr> date = 1, forecasted_demand = 0, optimal_production = 0,
                  capacity_utilization = 0, production_cost = 0,
                  potential_revenue = 0, profit_margin = 0 \<rparr>,
                \<lparr> date = 2, forecasted_demand = 0, optimal_production = 0,
                  capacity_utilization = 0, production_cost = 0,
                  potential_revenue = 0, profit_margin = 0 \<rparr>])"
  by code_simp

lemma cheese_totals:
  "total_over pandas_in_order potential_revenue (Some idle_forecasts) [''Cheese''] = 0"
  by (simp add: total_over_def cheese_plan pandas_in_order_def fadd_def)

text \<open>
  Claim C9 says that a row whose potential revenue is 0 reports the profit margin 0, and
  that the overall profit margin of the summary equals
  \<open>(total revenue - total cost) / total revenue * 100\<close> when the total revenue is positive.
  The source tests the revenue before rounding: for Milk with the demand \<open>0.0001\<close> the
  row reports the revenue 0 and the production 0 with the margin 40. And the source
  rounds the overall quotient to one decimal: for Butter alone the totals are 495 and
  330, the quotient is \<open>33.33...\<close> and the summary holds \<open>33.3\<close>.
\<close>

theorem overall_margin_rounded_counterexample:
  "calculate_optimal_production (Some small_forecasts) ''Milk'' (fl (1 / 10)) None =
     Inr (Some [\<lparr> date = 1, forecasted_demand = fl (1 / 10000), optimal_production = 0,
                  capacity_utilization = 0, production_cost = 0,
                  potential_revenue = 0, profit_margin = 40 \<rparr>])
   \<and> (40 :: rat) \<noteq> 0
   \<and> (case generate_optimization_summary pandas_in_order (Some combined_forecasts)
             [''Butter''] 30 of
         Inl e \<Rightarrow> None
       | Inr s \<Rightarrow> Some (overall_metrics s))
      = Some \<lparr> overall_production_cost = 330, overall_potential_revenue = 495,
               overall_profit_margin = fl (333 / 10) \<rparr>
   \<and> fmul (fl (fsub 495 330 / 495)) 100 \<noteq> fl (333 / 10)"
  by code_simp

text \<open>
  Claim C9, amended. \<open>calculate_optimal_production\<close> raises no division error, and in a
  plan every row whose revenue before rounding (the production before rounding times the
  estimated price, in double arithmetic) is not positive has the profit margin 0: the
  division is guarded by \<open>revenue > 0\<close>. \<open>generate_optimization_summary\<close> returns a
  summary without a division error or invalid value; with the total revenue and the
  total cost being the running sums, over the products that have a plan, of the sums of
  the rows' reported revenues and costs, its overall profit margin is
  \<open>(total revenue - total cost) / total revenue * 100\<close>, computed in doubles and rounded
  to one decimal, when the total revenue is positive, and 0 otherwise, in particular
  when it is 0.
\<close>

theorem profit_margin_never_divides_by_zero:
  "(\<forall>e. calculate_optimal_production forecasts product safety_stock custom_capacity \<noteq> Inl e)
   \<and> (calculate_optimal_production forecasts product safety_stock custom_capacity
         = Inr (Some plan)
      \<longrightarrow> (let capacity =
                  (case custom_capacity of
                     Some c \<Rightarrow>
                       if c \<noteq> 0 then c
                       else (case default_capacities product of Some k \<Rightarrow> k | None \<Rightarrow> 1000)
                   | None \<Rightarrow> (case default_capacities product of Some k \<Rightarrow> k | None \<Rightarrow> 1000));
                unit_price = (case price_estimates product of Some p \<Rightarrow> p | None \<Rightarrow> 100)
            in \<forall>r \<in> set plan.
                 fmul (min (fmul (forecasted_demand r) (fadd 1 safety_stock)) capacity)
                   unit_price \<le> 0
                 \<longrightarrow> profit_margin r = 0))
   \<and> (\<exists>s. generate_optimization_summary lib forecasts products horizon = Inr s
          \<and> overall_profit_margin (overall_metrics s) =
              (let R = total_over lib potential_revenue forecasts products;
                   C = total_over lib production_cost forecasts products
               in if 0 < R then scalar_round lib (fmul (fl (fsub R C / R)) 100) 1 else 0))"
proof (intro conjI allI impI)
  fix e
  show "calculate_optimal_production forecasts product safety_stock custom_capacity \<noteq> Inl e"
    by (rule calculate_optimal_production_never_raises)
next
  assume "calculate_optimal_production forecasts product safety_stock custom_capacity
            = Inr (Some plan)"
  from calculate_optimal_production_rows [OF this]
  have "\<forall>r \<in> set plan.
          fmul (min (fmul (forecasted_demand r) (fadd 1 safety_stock))
                  (capacity_for custom_capacity product))
            (estimate_price product) \<le> 0
          \<longrightarrow> profit_margin r = 0"
    by (auto simp: plan_row_for_def Let_def)
  moreover have "estimate_price product
                   = (case price_estimates product of Some p \<Rightarrow> p | None \<Rightarrow> 100)"
    by (simp add: estimate_price_def dict_get_def)
  ultimately show "let capacity =
                  (case custom_capacity of
                     Some c \<Rightarrow>
                       if c \<noteq> 0 then c
                       else (case default_capacities product of Some k \<Rightarrow> k | None \<Rightarrow> 1000)
                   | None \<Rightarrow> (case default_capacities product of Some k \<Rightarrow> k | None \<Rightarrow> 1000));
                unit_price = (case price_estimates product of Some p \<Rightarrow> p | None \<Rightarrow> 100)
            in \<forall>r \<in> set plan.
                 fmul (min (fmul (forecasted_demand r) (fadd 1 safety_stock)) capacity)
                   unit_price \<le> 0
                 \<longrightarrow> profit_margin r = 0"
    by (simp add: capacity_for_cases [of custom_capacity product] Let_def)
next
  show "\<exists>s. generate_optimization_summary lib forecasts products horizon = Inr s
          \<and> overall_profit_margin (overall_metrics s) =
              (let R = total_over lib potential_revenue forecasts products;
                   C = total_over lib production_cost forecasts products
               in if 0 < R then scalar_round lib (fmul (fl (fsub R C / R)) 100) 1 else 0)"
    by (rule generate_optimization_summary_result)
qed

theorem profit_margin_never_divides_by_zero_witness:
  "calculate_optimal_production (Some combined_forecasts) ''Butter'' (fl (1 / 10)) None =
     Inr (Some [\<lparr> date = 1, forecasted_demand = 1, optimal_production = 1,
                  capacity_utilization = fl (1 / 5), production_cost = 330,
                  potential_revenue = 495, profit_margin = fl (333 / 10) \<rparr>,
                \<lparr> date = 2, forecasted_demand = 0, optimal_production = 0,
                  capacity_utilization = 0, production_cost = 0,
                  potential_revenue = 0, profit_margin = 0 \<rparr>])
   \<and> fmul (min (fmul 0 (fadd 1 (fl (1 / 10)))) 500) 450 \<le> 0
   \<and> total_over pandas_in_order potential_revenue (Some combined_forecasts) [''Butter''] = 495
   \<and> total_over pandas_in_order production_cost (Some combined_forecasts) [''Butter''] = 330
   \<and> (\<exists>s. generate_optimization_summary pandas_in_order (Some combined_forecasts)
              [''Butter''] 30 = Inr s
          \<and> overall_profit_margin (overall_metrics s)
              = py_round (fmul (fl (fsub 495 330 / 495)) 100) 1)
   \<and> total_over pandas_in_order potential_revenue (Some idle_forecasts) [''Cheese''] = 0
   \<and> (\<exists>s. generate_optimization_summary pandas_in_order (Some idle_forecasts)
              [''Cheese''] 30 = Inr s
          \<and> overall_profit_margin (overall_metrics s) = 0)"
proof -
  have z: "fmul (min (fmul 0 (fadd 1 (fl (1 / 10)))) 500) 450 \<le> 0"
    by (simp add: fmul_def)
  have sr: "scalar_round pandas_in_order = py_round"
    by (simp add: pandas_in_order_def)
  from profit_margin_never_divides_by_zero
         [of "Some combined_forecasts" "''Butter''" "fl (1 / 10)" None _ pandas_in_order
             "[''Butter'']" 30]
  have a: "\<exists>s. generate_optimization_summary pandas_in_order (Some combined_forecasts)
              [''Butter''] 30 = Inr s
          \<and> overall_profit_margin (overall_metrics s)
              = py_round (fmul (fl (fsub 495 330 / 495)) 100) 1"
    by (simp add: butter_totals Let_def sr)
  from profit_margin_never_divides_by_zero
         [of "Some idle_forecasts" "''Cheese''" "fl (1 / 10)" None _ pandas_in_order
             "[''Cheese'']" 30]
  have b: "\<exists>s. generate_optimization_summary pandas_in_order (Some idle_forecasts)
              [''Cheese''] 30 = Inr s
          \<and> overall_profit_margin (overall_metrics s) = 0"
    by (simp add: cheese_totals Let_def)
  from butter_plan z butter_totals a cheese_totals b show ?thesis by blast
qed

section \<open>The inventory look-ahead\<close>

text \<open>
  When the labels of the product's rows are their positions, as in a frame that holds
  one product only and was numbered afresh, the look-ahead of the row at position \<open>i\<close>
  is the sum of the demand of the next \<open>days\<close> rows from \<open>i\<close> on, cut at the end of the
  series.
\<close>

lemma future_demand_when_labels_are_positions:
  assumes "map row_label pf = [0..<length pf]" and "i < length pf"
  shows "calculate_future_demand lib pf (row_label (pf ! i)) days =
           series_sum lib (map row_demand (take days (drop i pf)))"
proof -
  from assms have "map row_label pf ! i = [0..<length pf] ! i" by simp
  with assms(2) have "row_label (pf ! i) = i" by simp
  moreover have "take (min (i + days) (length pf) - i) (drop i pf) = take days (drop i pf)"
    using assms(2) by (simp add: min_def)
  ultimately show ?thesis
    by (simp add: calculate_future_demand_def iloc_def Let_def)
qed

text \<open>
  Claim C5 says that at each row the look-ahead sums the demand of the next
  \<open>shelf_life_days\<close> rows starting at the current row. The source passes the row's index
  label to \<open>iloc\<close>, which takes positions. In the combined frame the rows of Butter carry
  the labels 2 and 3 and are at positions 0 and 1: the demand from the first Butter row on
  sums to 1, the source's look-ahead for it is the sum of \<open>iloc[2:2]\<close>, which is 0, and the
  plan has the optimal stock 0 and orders nothing.
\<close>

theorem inventory_lookahead_uses_label_as_position:
  "product_forecasts combined_forecasts ''Butter'' =
     [\<lparr> row_label = 2, row_date = 1, row_product = ''Butter'', row_demand = 1 \<rparr>,
      \<lparr> row_label = 3, row_date = 2, row_product = ''Butter'', row_demand = 0 \<rparr>]
   \<and> sum_list (map row_demand
        (take 30 (drop 0 (product_forecasts combined_forecasts ''Butter'')))) = 1
   \<and> calculate_future_demand pandas_in_order
        (product_forecasts combined_forecasts ''Butter'') 2 30 = 0
   \<and> calculate_inventory_optimization pandas_in_order (Some combined_forecasts) ''Butter'' 0 =
       Some [\<lparr> inv_date = 1, current_inventory = 0, inv_forecasted_demand = 1,
               optimal_stock_level = 0, reorder_point = 2, recommended_order = 0,
               daily_storage_cost = 0, stock_status = ''Reorder Required'' \<rparr>,
             \<lparr> inv_date = 2, current_inventory = 0, inv_forecasted_demand = 0,
               optimal_stock_level = 0, reorder_point = 0, recommended_order = 0,
               daily_storage_cost = 0, stock_status = ''Optimal'' \<rparr>]"
  by code_simp

section \<open>Evaluation at training time\<close>

lemma model_performance_set_performance [simp]:
  "model_performance (set_performance s product p) = (model_performance s)(product \<mapsto> p)"
  by (simp add: set_performance_def)

lemma unavailable_eq_iff [simp]: "(unavailable a = (unavailable b :: 'm pyobj)) = (a = b)"
  by (simp add: unavailable_def)

lemma unavailable_neq_Performance:
  "perf_note p \<noteq> msg \<Longrightarrow> (Performance p :: 'm pyobj) \<noteq> unavailable msg"
  by (auto simp: unavailable_def)

lemma validation_metrics_note:
  "validation_metrics ys yhat = Inr p \<Longrightarrow> perf_note p = ''Validation on last 30 days''"
  by (auto simp: validation_metrics_def Let_def split: if_splits)

lemma evaluate_model_short:
  assumes "length data < 90"
  shows "evaluate_model lib s model data product =
           set_performance s product (unavailable ''Insufficient data for validation'')"
  using assms by (simp add: evaluate_model_def Let_def)

lemma evaluate_model_records:
  "\<exists>p. evaluate_model lib s model data product = set_performance s product p"
  by (auto simp: evaluate_model_def Let_def split: sum.splits)

lemma evaluate_model_long_not_skipped:
  assumes "90 \<le> length data"
  shows "model_performance (evaluate_model lib s model data product) product
           \<noteq> Some (unavailable ''Insufficient data for validation'')"
proof -
  from assms have "\<not> int (length data) - 30 < 60" by simp
  then show ?thesis
    by (auto simp: evaluate_model_def Let_def unavailable_neq_Performance
             dest!: validation_metrics_note split: sum.splits)
qed

lemma length_flat_series [simp]: "length (flat_series n) = n"
  by (simp add: flat_series_def)

lemma take_flat_series: "k \<le> n \<Longrightarrow> take k (flat_series n) = flat_series k"
  by (simp add: flat_series_def take_map)

lemma values_flat_series_tail:
  "k \<le> n \<Longrightarrow> map snd (drop (n - k) (flat_series n)) = replicate k 1"
  by (simp add: flat_series_def drop_map comp_def map_replicate_const)

lemma last_flat_series: "0 < n \<Longrightarrow> snd (last (flat_series n)) = 1"
  by (simp add: flat_series_def last_map)

text \<open>
  Claim C2 says the evaluation is skipped exactly when the series has fewer than 60
  points. The source holds out 30 points first and then asks for 60 in what is left
  (\<open>train_size = len(data) - 30\<close>, \<open>if train_size < 60\<close>): a series of 70 points is
  skipped.
\<close>

theorem seventy_points_counterexample:
  "60 \<le> length (flat_series 70)
   \<and> model_performance
        (evaluate_model naive_prophet fresh (''additive'', flat_series 70) (flat_series 70) ''Milk'')
        ''Milk'' = Some (unavailable ''Insufficient data for validation'')"
  by (simp add: evaluate_model_def Let_def)

text \<open>
  Claim C2, amended. The evaluation is skipped, all three metrics recorded as
  unavailable with the note \<open>Insufficient data for validation\<close> and no exception raised,
  exactly when the series has fewer than 90 points, that is when fewer than 60 are left
  after the most recent 30 are held out; a series of 40 points is such a series. For a
  series of at least 90 points a fresh model is fitted on the series without its most
  recent 30 points and, when the library's fit and prediction succeed and the forecast
  covers the held-out days, MAE, RMSE and MAPE are computed on the held-out 30 points,
  both columns floored at 0.1.
\<close>

theorem evaluation_skipped_below_90_points:
  fixes lib :: "'m prophet"
  shows
  "(length data < 90
      \<longrightarrow> model_performance (evaluate_model lib s model data product) product =
            Some (unavailable ''Insufficient data for validation''))
   \<and> (90 \<le> length data
      \<longrightarrow> model_performance (evaluate_model lib s model data product) product
            \<noteq> Some (unavailable ''Insufficient data for validation''))
   \<and> (90 \<le> length data
       \<and> fit lib (seasonality_mode lib model) None (take (length data - 30) data) = Inr temp_model
       \<and> predict lib temp_model 30 = Inr forecast
       \<and> 30 \<le> length forecast
      \<longrightarrow> length (drop (length data - 30) data) = 30
        \<and> model_performance (evaluate_model lib s model data product) product =
            Some (Performance
              (let y_true = map (\<lambda>v. max v (1 / 10)) (map snd (drop (length data - 30) data));
                   y_pred = map (\<lambda>v. max v (1 / 10)) (tail forecast 30)
               in \<lparr> mae = Some (mean_absolute_error y_true y_pred),
                    rmse = Some (sqrt (mean_squared_error y_true y_pred)),
                    mape = Some (mean_absolute_percentage_error y_true y_pred * 100),
                    perf_note = ''Validation on last 30 days'' \<rparr>)))"
proof (intro conjI impI)
  assume "length data < 90"
  then show "model_performance (evaluate_model lib s model data product) product =
            Some (unavailable ''Insufficient data for validation'')"
    by (simp add: evaluate_model_short)
next
  assume "90 \<le> length data"
  then show "model_performance (evaluate_model lib s model data product) product
            \<noteq> Some (unavailable ''Insufficient data for validation'')"
    by (rule evaluate_model_long_not_skipped)
next
  assume a: "90 \<le> length data
       \<and> fit lib (seasonality_mode lib model) None (take (length data - 30) data) = Inr temp_model
       \<and> predict lib temp_model 30 = Inr forecast
       \<and> 30 \<le> length forecast"
  then show "length (drop (length data - 30) data) = 30" by simp
next
  assume a: "90 \<le> length data
       \<and> fit lib (seasonality_mode lib model) None (take (length data - 30) data) = Inr temp_model
       \<and> predict lib temp_model 30 = Inr forecast
       \<and> 30 \<le> length forecast"
  then have n: "nat (int (length data) - 30) = length data - 30"
    and big: "\<not> int (length data) - 30 < 60"
    and held: "length (drop (length data - 30) data) = 30"
    by simp_all
  from a have tl: "length (tail forecast 30) = 30"
    by (simp add: tail_def)
  from a show "model_performance (evaluate_model lib s model data product) product =
            Some (Performance
              (let y_true = map (\<lambda>v. max v (1 / 10)) (map snd (drop (length data - 30) data));
                   y_pred = map (\<lambda>v. max v (1 / 10)) (tail forecast 30)
               in \<lparr> mae = Some (mean_absolute_error y_true y_pred),
                    rmse = Some (sqrt (mean_squared_error y_true y_pred)),
                    mape = Some (mean_absolute_percentage_error y_true y_pred * 100),
                    perf_note = ''Validation on last 30 days'' \<rparr>))"
    by (simp add: evaluate_model_def Let_def n big held tl validation_metrics_def)
qed

theorem evaluation_skipped_below_90_points_witness:
  "length (flat_series 40) < 90
   \<and> model_performance
        (evaluate_model naive_prophet fresh (''additive'', flat_series 40) (flat_series 40) ''Milk'')
        ''Milk'' = Some (unavailable ''Insufficient data for validation'')
   \<and> 90 \<le> length (flat_series 100)
   \<and> fit naive_prophet (seasonality_mode naive_prophet (''additive'', flat_series 100)) None
         (take (length (flat_series 100) - 30) (flat_series 100))
       = Inr (''additive'', flat_series 70)
   \<and> predict naive_prophet (''additive'', flat_series 70) 30
       = Inr (map snd (flat_series 70) @ replicate 30 2)
   \<and> 30 \<le> length (map snd (flat_series 70) @ replicate 30 (2 :: real))
   \<and> model_performance
        (evaluate_model naive_prophet fresh (''additive'', flat_series 100) (flat_series 100)
           ''Milk'')
        ''Milk''
      = Some (Performance \<lparr> mae = Some 1, rmse = Some 1, mape = Some 100,
                             perf_note = ''Validation on last 30 days'' \<rparr>)"
proof -
  have h1: "length (flat_series 40) < 90" by simp
  have h2: "90 \<le> length (flat_series 100)" by simp
  have h3: "fit naive_prophet (seasonality_mode naive_prophet (''additive'', flat_series 100)) None
              (take (length (flat_series 100) - 30) (flat_series 100))
            = Inr (''additive'', flat_series 70)"
    by (simp add: naive_prophet_def take_flat_series)
  have h4: "predict naive_prophet (''additive'', flat_series 70) 30
            = Inr (map snd (flat_series 70) @ replicate 30 2)"
    by (simp add: naive_prophet_def last_flat_series)
  have h5: "30 \<le> length (map snd (flat_series 70) @ replicate 30 (2 :: real))" by simp
  have t: "tail (map snd (flat_series 70) @ replicate 30 (2 :: real)) 30 = replicate 30 2"
    by (simp add: tail_def)
  have v: "map snd (drop (length (flat_series 100) - 30) (flat_series 100)) = replicate 30 1"
    using values_flat_series_tail [of 30 100] by simp
  have m1: "mean_absolute_error (replicate 30 1) (replicate 30 2) = 1"
    by (simp add: mean_absolute_error_def zip_replicate sum_list_replicate)
  have m2: "mean_squared_error (replicate 30 1) (replicate 30 2) = 1"
    by (simp add: mean_squared_error_def zip_replicate sum_list_replicate)
  have m3: "mean_absolute_percentage_error (replicate 30 1) (replicate 30 2) = 1"
    by (simp add: mean_absolute_percentage_error_def zip_replicate sum_list_replicate)
  from evaluation_skipped_below_90_points
         [of "flat_series 40" naive_prophet fresh "(''additive'', flat_series 40)" "''Milk''"]
       h1
  have a: "model_performance
        (evaluate_model naive_prophet fresh (''additive'', flat_series 40) (flat_series 40) ''Milk'')
        ''Milk'' = Some (unavailable ''Insufficient data for validation'')"
    by blast
  have yt: "map (\<lambda>v. max v (1 / 10))
              (map snd (drop (length (flat_series 100) - 30) (flat_series 100)))
            = replicate 30 1"
    by (simp only: v) simp
  have yp: "map (\<lambda>v. max v (1 / 10))
              (tail (map snd (flat_series 70) @ replicate 30 (2 :: real)) 30)
            = replicate 30 2"
    by (simp only: t) simp
  from evaluation_skipped_below_90_points
         [of "flat_series 100" naive_prophet fresh "(''additive'', flat_series 100)" "''Milk''"
             "(''additive'', flat_series 70)" "map snd (flat_series 70) @ replicate 30 2"]
       h2 h3 h4 h5
  have "model_performance
        (evaluate_model naive_prophet fresh (''additive'', flat_series 100) (flat_series 100)
           ''Milk'')
        ''Milk''
      = Some (Performance
              (let y_true = map (\<lambda>v. max v (1 / 10))
                              (map snd (drop (length (flat_series 100) - 30) (flat_series 100)));
                   y_pred = map (\<lambda>v. max v (1 / 10))
                              (tail (map snd (flat_series 70) @ replicate 30 2) 30)
               in \<lparr> mae = Some (mean_absolute_error y_true y_pred),
                    rmse = Some (sqrt (mean_squared_error y_true y_pred)),
                    mape = Some (mean_absolute_percentage_error y_true y_pred * 100),
                    perf_note = ''Validation on last 30 days'' \<rparr>))"
    by blast
  then have b: "model_performance
        (evaluate_model naive_prophet fresh (''additive'', flat_series 100) (flat_series 100)
           ''Milk'')
        ''Milk''
      = Some (Performance \<lparr> mae = Some 1, rmse = Some 1, mape = Some 100,
                             perf_note = ''Validation on last 30 days'' \<rparr>)"
    unfolding yt yp Let_def m1 m2 m3 by simp
  from h1 a h2 h3 h4 h5 b show ?thesis by blast
qed

section \<open>The cache invariant\<close>

lemma evaluate_model_memory:
  "models (evaluate_model lib s model data product) = models s"
  "metadata (evaluate_model lib s model data product) = metadata s"
  "models_dir (evaluate_model lib s model data product) = models_dir s"
  "model_performance (evaluate_model lib s model data product) product \<noteq> None"
  "model_performance s k \<noteq> None
     \<Longrightarrow> model_performance (evaluate_model lib s model data product) k \<noteq> None"
  using evaluate_model_records [of lib s model data product]
  by (auto simp: set_performance_def)

lemma save_model_memory:
  "models (snd (save_model io now s product model data)) = models s"
  "model_performance (snd (save_model io now s product model data)) = model_performance s"
  "metadata s k \<noteq> None \<Longrightarrow> metadata (snd (save_model io now s product model data)) k \<noteq> None"
  by (auto simp: save_model_def write_file_def Let_def
           split: write_outcome.splits prod.splits if_splits)

lemma save_model_completes:
  assumes "writes_complete io product data"
  shows "fst (save_model io now s product model data)"
    and "metadata (snd (save_model io now s product model data)) product \<noteq> None"
  using assms
  by (auto simp: save_model_def write_file_def Let_def writes_complete_def)

lemma save_model_failed_metadata:
  "\<not> fst (save_model io now s product model data)
     \<Longrightarrow> metadata (snd (save_model io now s product model data)) = metadata s"
  by (auto simp: save_model_def write_file_def Let_def
           split: write_outcome.splits prod.splits if_splits)

lemma load_model_has_metrics: "has_metrics s \<Longrightarrow> has_metrics (snd (load_model s product))"
  by (auto simp: has_metrics_def load_model_def Let_def
           split: option.splits pickle_file.splits)

lemma load_model_has_metadata: "has_metadata s \<Longrightarrow> has_metadata (snd (load_model s product))"
  by (auto simp: has_metadata_def load_model_def Let_def
           split: option.splits pickle_file.splits)

lemma load_files_has_metrics: "has_metrics s \<Longrightarrow> has_metrics (load_files s fs)"
  by (induction fs arbitrary: s) (simp_all add: load_model_has_metrics)

lemma load_files_has_metadata: "has_metadata s \<Longrightarrow> has_metadata (load_files s fs)"
  by (induction fs arbitrary: s) (simp_all add: load_model_has_metadata)

lemma delete_model_has_metrics: "has_metrics s \<Longrightarrow> has_metrics (snd (delete_model rm s product))"
  by (auto simp: has_metrics_def delete_model_def split: prod.splits bool.splits)

lemma delete_model_has_metadata:
  "has_metadata s \<Longrightarrow> has_metadata (snd (delete_model rm s product))"
  by (auto simp: has_metadata_def delete_model_def split: prod.splits bool.splits)

lemma save_model_has_metrics:
  "has_metrics s \<Longrightarrow> has_metrics (snd (save_model io now s product model data))"
  by (simp add: has_metrics_def save_model_memory)

lemma save_model_has_metadata:
  "has_metadata s \<Longrightarrow> has_metadata (snd (save_model io now s product model data))"
  by (simp add: has_metadata_def save_model_memory)

lemma train_model_has_metrics:
  assumes "has_metrics s"
  shows "has_metrics (snd (train_model lib io now s data product mode))"
proof (cases "fit lib mode (Some (95 / 100)) data")
  case (Inl e)
  with assms show ?thesis by (simp add: train_model_def)
next
  case (Inr model)
  let ?s1 = "s\<lparr> models := (models s)(product \<mapsto> Model model) \<rparr>"
  let ?s2 = "evaluate_model lib ?s1 model data product"
  have "model_performance ?s2 k \<noteq> None" if "models ?s2 k \<noteq> None" for k
  proof (cases "k = product")
    case True
    then show ?thesis by (simp add: evaluate_model_memory)
  next
    case False
    with that have "models s k \<noteq> None" by (simp add: evaluate_model_memory)
    with assms have "model_performance ?s1 k \<noteq> None" by (simp add: has_metrics_def)
    then show ?thesis by (rule evaluate_model_memory(5))
  qed
  then have "has_metrics ?s2" by (simp add: has_metrics_def)
  then have "has_metrics (snd (save_model io now ?s2 product model data))"
    by (rule save_model_has_metrics)
  with Inr show ?thesis by (simp add: train_model_def Let_def)
qed

lemma train_model_has_metadata:
  assumes "has_metadata s"
    and "save_completes lib (Train data product mode io now)"
  shows "has_metadata (snd (train_model lib io now s data product mode))"
proof (cases "fit lib mode (Some (95 / 100)) data")
  case (Inl e)
  with assms show ?thesis by (simp add: train_model_def)
next
  case (Inr model)
  let ?s1 = "s\<lparr> models := (models s)(product \<mapsto> Model model) \<rparr>"
  let ?s2 = "evaluate_model lib ?s1 model data product"
  let ?s3 = "snd (save_model io now ?s2 product model data)"
  from Inr assms(2) have w: "writes_complete io product data" by simp
  have "metadata ?s3 k \<noteq> None" if "models ?s3 k \<noteq> None" for k
  proof (cases "k = product")
    case True
    with save_model_completes(2) [OF w] show ?thesis by simp
  next
    case False
    with that have "models s k \<noteq> None"
      by (simp add: save_model_memory evaluate_model_memory)
    with assms(1) have "metadata ?s2 k \<noteq> None"
      by (simp add: has_metadata_def evaluate_model_memory)
    then show ?thesis by (rule save_model_memory(3))
  qed
  then have "has_metadata ?s3" by (simp add: has_metadata_def)
  with Inr show ?thesis by (simp add: train_model_def Let_def)
qed

lemma step_has_metrics: "has_metrics s \<Longrightarrow> has_metrics (step lib s c)"
  by (cases c)
     (simp_all add: train_model_has_metrics save_model_has_metrics load_model_has_metrics
        load_all_models_def load_files_has_metrics delete_model_has_metrics)

lemma step_has_metadata:
  "has_metadata s \<Longrightarrow> save_completes lib c \<Longrightarrow> has_metadata (step lib s c)"
  by (cases c)
     (simp_all add: train_model_has_metadata save_model_has_metadata load_model_has_metadata
        load_all_models_def load_files_has_metadata delete_model_has_metadata
        del: save_completes.simps)

lemma run_has_metrics: "has_metrics s \<Longrightarrow> has_metrics (run lib s ops)"
  by (induction ops arbitrary: s) (simp_all add: step_has_metrics)

lemma run_has_metadata:
  "has_metadata s \<Longrightarrow> \<forall>c \<in> set ops. save_completes lib c \<Longrightarrow> has_metadata (run lib s ops)"
  by (induction ops arbitrary: s) (simp_all add: step_has_metadata)

lemma new_forecaster_invariants:
  "has_metrics (new_forecaster d)" "has_metadata (new_forecaster d)"
proof -
  let ?s0 = "\<lparr> models = Map.empty, model_performance = Map.empty,
               metadata = Map.empty, models_dir = d \<rparr>"
  have "has_metrics ?s0" by (simp add: has_metrics_def)
  then show "has_metrics (new_forecaster d)"
    unfolding new_forecaster_def load_all_models_def by (rule load_files_has_metrics)
  have "has_metadata ?s0" by (simp add: has_metadata_def)
  then show "has_metadata (new_forecaster d)"
    unfolding new_forecaster_def load_all_models_def by (rule load_files_has_metadata)
qed

lemma train_model_stores_model:
  assumes "fit lib mode (Some (95 / 100)) data = Inr model"
  shows "models (snd (train_model lib io now s data product mode)) product = Some (Model model)"
  using assms
  by (simp add: train_model_def Let_def save_model_memory evaluate_model_memory)

lemma save_model_complete_result:
  assumes "writes_complete io product data"
  shows "metadata (snd (save_model io now s product model data)) =
           (metadata s)(product \<mapsto>
              Metadata \<lparr> md_product = product, trained_date = now,
                         data_points = length data,
                         date_range_start = min_date data,
                         date_range_end = max_date data \<rparr>)"
  using assms
  by (auto simp: save_model_def write_file_def Let_def writes_complete_def)

lemma train_model_complete_result:
  assumes "fit lib mode (Some (95 / 100)) data = Inr model"
    and "writes_complete io product data"
  shows "models (snd (train_model lib io now s data product mode)) product
           = Some (Model model)"
    and "model_performance (snd (train_model lib io now s data product mode)) product
           \<noteq> None"
    and "metadata (snd (train_model lib io now s data product mode)) product
           = Some (Metadata \<lparr> md_product = product, trained_date = now,
                               data_points = length data,
                               date_range_start = min_date data,
                               date_range_end = max_date data \<rparr>)"
  using assms
  by (simp_all add: train_model_def Let_def save_model_memory evaluate_model_memory
        save_model_complete_result)

lemma train_model_failed_first_write:
  assumes "fit lib mode (Some (95 / 100)) data = Inr model"
    and "io (model_path product) = OpenFailed"
  shows "models (snd (train_model lib io now s data product mode))
           = (models s)(product \<mapsto> Model model)"
    and "metadata (snd (train_model lib io now s data product mode)) = metadata s"
proof -
  let ?s1 = "s\<lparr> models := (models s)(product \<mapsto> Model model) \<rparr>"
  let ?s2 = "evaluate_model lib ?s1 model data product"
  from assms(2) have f: "\<not> fst (save_model io now ?s2 product model data)"
    by (simp add: save_model_def write_file_def)
  from assms(1) show "models (snd (train_model lib io now s data product mode))
           = (models s)(product \<mapsto> Model model)"
    by (simp add: train_model_def Let_def save_model_memory evaluate_model_memory)
  from assms(1) save_model_failed_metadata [OF f]
  show "metadata (snd (train_model lib io now s data product mode)) = metadata s"
    by (simp add: train_model_def Let_def evaluate_model_memory)
qed

lemma flat_series_dates:
  "min_date (flat_series 40) = 0" "max_date (flat_series 40) = 39"
  "min_date (flat_series 3) = 0" "max_date (flat_series 3) = 2"
  by code_simp+

lemma flat_series_nonempty: "0 < n \<Longrightarrow> flat_series n \<noteq> []"
  using length_flat_series [of n] by (cases "flat_series n") auto

lemma naive_fit:
  "2 \<le> n \<Longrightarrow> fit naive_prophet mode width (flat_series n) = Inr (mode, flat_series n)"
  by (simp add: naive_prophet_def)




section \<open>Loading a model\<close>

lemma milk_paths:
  "model_path ''Milk'' = ''Milk_model.pkl''"
  "performance_path ''Milk'' = ''Milk_performance.pkl''"
  "metadata_path ''Milk'' = ''Milk_metadata.pkl''"
  by (simp_all add: model_path_def performance_path_def metadata_path_def)

text \<open>
  Claim C7. For every product key and every content of the models directory,
  \<open>load_model\<close> returns \<open>False\<close> and leaves the forecaster as it was whenever one of the
  three files of the key is missing; when all three are there and unpickle, it returns
  \<open>True\<close> and has put the model, the metrics and the metadata read from them into the
  three dictionaries under the key. A file that does not unpickle gives \<open>False\<close> with
  the forecaster as it was.
\<close>

theorem load_model_all_or_nothing:
  "(\<not> path_exists (models_dir s) (model_path product)
      \<or> \<not> path_exists (models_dir s) (performance_path product)
      \<or> \<not> path_exists (models_dir s) (metadata_path product)
      \<longrightarrow> load_model s product = (False, s))
   \<and> (map_of (models_dir s) (model_path product) = Some (Pickled model)
       \<and> map_of (models_dir s) (performance_path product) = Some (Pickled perf)
       \<and> map_of (models_dir s) (metadata_path product) = Some (Pickled md)
      \<longrightarrow> load_model s product =
            (True, s\<lparr> models := (models s)(product \<mapsto> model),
                      model_performance := (model_performance s)(product \<mapsto> perf),
                      metadata := (metadata s)(product \<mapsto> md) \<rparr>))
   \<and> (map_of (models_dir s) (model_path product) = Some Garbage
      \<or> map_of (models_dir s) (performance_path product) = Some Garbage
      \<or> map_of (models_dir s) (metadata_path product) = Some Garbage
      \<longrightarrow> load_model s product = (False, s))"
  by (auto simp: load_model_def Let_def path_exists_def
           split: option.splits pickle_file.splits)

theorem load_model_all_or_nothing_witness:
  "\<not> path_exists (models_dir (fresh :: nat forecaster)) (model_path ''Milk'')
   \<and> load_model (fresh :: nat forecaster) ''Milk'' = (False, fresh)
   \<and> map_of (models_dir milk_on_disk) (model_path ''Milk'') = Some (Pickled (Model 7))
   \<and> map_of (models_dir milk_on_disk) (performance_path ''Milk'')
       = Some (Pickled (unavailable ''Insufficient data for validation''))
   \<and> map_of (models_dir milk_on_disk) (metadata_path ''Milk'')
       = Some (Pickled (Metadata milk_metadata))
   \<and> fst (load_model milk_on_disk ''Milk'')
   \<and> models (snd (load_model milk_on_disk ''Milk'')) ''Milk'' = Some (Model 7)
   \<and> model_performance (snd (load_model milk_on_disk ''Milk'')) ''Milk''
       = Some (unavailable ''Insufficient data for validation'')
   \<and> metadata (snd (load_model milk_on_disk ''Milk'')) ''Milk'' = Some (Metadata milk_metadata)
   \<and> map_of (models_dir (milk_on_disk \<lparr> models_dir :=
                 AList.update ''Milk_metadata.pkl'' Garbage (models_dir milk_on_disk) \<rparr>))
        (metadata_path ''Milk'') = Some Garbage
   \<and> \<not> fst (load_model (milk_on_disk \<lparr> models_dir :=
                 AList.update ''Milk_metadata.pkl'' Garbage (models_dir milk_on_disk) \<rparr>)
              ''Milk'')"
proof -
  have a: "\<not> path_exists (models_dir (fresh :: nat forecaster)) (model_path ''Milk'')"
    by (simp add: fresh_def path_exists_def)
  have b: "map_of (models_dir milk_on_disk) (model_path ''Milk'') = Some (Pickled (Model 7))"
    by (simp add: milk_on_disk_def milk_paths)
  have c: "map_of (models_dir milk_on_disk) (performance_path ''Milk'')
       = Some (Pickled (unavailable ''Insufficient data for validation''))"
    by (simp add: milk_on_disk_def milk_paths)
  have d: "map_of (models_dir milk_on_disk) (metadata_path ''Milk'')
       = Some (Pickled (Metadata milk_metadata))"
    by (simp add: milk_on_disk_def milk_paths)
  have g: "map_of (models_dir (milk_on_disk \<lparr> models_dir :=
                 AList.update ''Milk_metadata.pkl'' Garbage (models_dir milk_on_disk) \<rparr>))
        (metadata_path ''Milk'') = (Some Garbage :: nat pickle_file option)"
    by (simp add: milk_on_disk_def milk_paths)
  from load_model_all_or_nothing [of "fresh :: nat forecaster" "''Milk''"] a
  have 1: "load_model (fresh :: nat forecaster) ''Milk'' = (False, fresh)"
    by blast
  from load_model_all_or_nothing
         [of milk_on_disk "''Milk''" "Model 7"
             "unavailable ''Insufficient data for validation''" "Metadata milk_metadata"]
       b c d
  have 2: "load_model milk_on_disk ''Milk'' =
            (True, milk_on_disk\<lparr> models := (models milk_on_disk)(''Milk'' \<mapsto> Model 7),
                      model_performance := (model_performance milk_on_disk)
                        (''Milk'' \<mapsto> unavailable ''Insufficient data for validation''),
                      metadata := (metadata milk_on_disk)
                        (''Milk'' \<mapsto> Metadata milk_metadata) \<rparr>)"
    by blast
  from load_model_all_or_nothing
         [of "milk_on_disk \<lparr> models_dir :=
                 AList.update ''Milk_metadata.pkl'' Garbage (models_dir milk_on_disk) \<rparr>"
             "''Milk''"]
       g
  have 3: "load_model (milk_on_disk \<lparr> models_dir :=
                 AList.update ''Milk_metadata.pkl'' Garbage (models_dir milk_on_disk) \<rparr>)
              ''Milk''
           = (False, milk_on_disk \<lparr> models_dir :=
                 AList.update ''Milk_metadata.pkl'' Garbage (models_dir milk_on_disk) \<rparr>)"
    by blast
  from a b c d g 1 show ?thesis
    by (simp add: 2 3)
qed

section \<open>Listing the saved keys\<close>

text \<open>
  Claim C6 says that after a successful save of a key the list of available models
  contains the key. Saving turns the spaces of the key into underscores; reading a file
  name back turns every underscore into a space, those that were in the key too. The
  forecasting page trains under keys of the form \<open>company_product\<close>: after a successful
  save of \<open>Amul_Milk\<close> the list is \<open>Amul Milk\<close>, and a forecaster constructed over that
  directory holds the model under \<open>Amul Milk\<close> and none under \<open>Amul_Milk\<close>.
\<close>

theorem underscore_key_not_listed:
  "fst (save_model (\<lambda>_. Written) ''2024-01-31 10:00:00'' (fresh :: nat forecaster)
          ''Amul_Milk'' 7 (flat_series 100))
   \<and> get_available_models
        (snd (save_model (\<lambda>_. Written) ''2024-01-31 10:00:00'' (fresh :: nat forecaster)
                ''Amul_Milk'' 7 (flat_series 100)))
      = [''Amul Milk'']
   \<and> ''Amul_Milk'' \<notin> set (get_available_models
        (snd (save_model (\<lambda>_. Written) ''2024-01-31 10:00:00'' (fresh :: nat forecaster)
                ''Amul_Milk'' 7 (flat_series 100))))
   \<and> models (new_forecaster (models_dir
        (snd (save_model (\<lambda>_. Written) ''2024-01-31 10:00:00'' (fresh :: nat forecaster)
                ''Amul_Milk'' 7 (flat_series 100))))) ''Amul_Milk'' = None
   \<and> models (new_forecaster (models_dir
        (snd (save_model (\<lambda>_. Written) ''2024-01-31 10:00:00'' (fresh :: nat forecaster)
                ''Amul_Milk'' 7 (flat_series 100))))) ''Amul Milk'' = Some (Model 7)"
  by code_simp

end
